theory Spec2Isabelle
  imports Complex_Main
begin

section \<open>The skeleton coordinator of the multibody dynamics engine\<close>

text \<open>
  This theory embeds \<^verbatim>\<open>dart/dynamics/Skeleton.cpp\<close>. A skeleton owns a list of body
  nodes (pointers), the list of generalized coordinates (pointers), the system matrices
  and vectors, and one dirty flag for each cached quantity. Doubles are modelled as
  real numbers, C++ \<^verbatim>\<open>int\<close> values as integers, pointers as addresses (natural
  numbers) into explicit object tables.
\<close>

subsection \<open>Values\<close>

type_synonym vec = "real list"

text \<open>\<^verbatim>\<open>Eigen::Vector3d\<close>, with the arithmetic the skeleton uses.\<close>

type_synonym vec3 = "real \<times> real \<times> real"

fun scale3 :: "real \<Rightarrow> vec3 \<Rightarrow> vec3" where
  "scale3 c (x, y, z) = (c * x, c * y, c * z)"

fun add3 :: "vec3 \<Rightarrow> vec3 \<Rightarrow> vec3" where
  "add3 (x, y, z) (x', y', z') = (x + x', y + y', z + z')"

fun sub3 :: "vec3 \<Rightarrow> vec3 \<Rightarrow> vec3" where
  "sub3 (x, y, z) (x', y', z') = (x - x', y - y', z - z')"

text \<open>
  A dense matrix (\<^verbatim>\<open>Eigen::MatrixXd\<close>): its dimensions and its coefficients. A
  dense vector owned by the skeleton (\<^verbatim>\<open>Eigen::VectorXd\<close>): its size and its
  coefficients. Coefficients outside the dimensions carry no meaning.
\<close>

record matrix =
  mrows :: nat
  mcols :: nat
  coeff :: "nat \<Rightarrow> nat \<Rightarrow> real"

record vector =
  vsize :: nat
  vcoeff :: "nat \<Rightarrow> real"

definition matrixZero :: "nat \<Rightarrow> nat \<Rightarrow> matrix" where
  "matrixZero r c = \<lparr>mrows = r, mcols = c, coeff = (\<lambda>i k. 0)\<rparr>"

definition matrixSetZero :: "matrix \<Rightarrow> matrix" where
  "matrixSetZero M = M\<lparr>coeff := (\<lambda>i k. 0)\<rparr>"

definition vectorZero :: "nat \<Rightarrow> vector" where
  "vectorZero n = \<lparr>vsize = n, vcoeff = (\<lambda>i. 0)\<rparr>"

definition vectorSetZero :: "vector \<Rightarrow> vector" where
  "vectorSetZero v = v\<lparr>vcoeff := (\<lambda>i. 0)\<rparr>"

text \<open>
  \<^verbatim>\<open>M.triangularView<Eigen::StrictlyUpper>() = M.transpose()\<close>: every coefficient
  strictly above the diagonal is overwritten with the one mirrored below the diagonal.
\<close>

definition mirrorStrictlyUpper :: "matrix \<Rightarrow> matrix" where
  "mirrorStrictlyUpper M =
     M\<lparr>coeff := (\<lambda>i k. if i < k \<and> i < mrows M \<and> k < mcols M then coeff M k i else coeff M i k)\<rparr>"

text \<open>
  \<^verbatim>\<open>M.triangularView<Eigen::StrictlyLower>() = M.transpose()\<close>: every coefficient
  strictly below the diagonal is overwritten with the one mirrored above the diagonal.
\<close>

definition mirrorStrictlyLower :: "matrix \<Rightarrow> matrix" where
  "mirrorStrictlyLower M =
     M\<lparr>coeff := (\<lambda>i k. if k < i \<and> i < mrows M \<and> k < mcols M then coeff M k i else coeff M i k)\<rparr>"

definition symmetric :: "nat \<Rightarrow> matrix \<Rightarrow> bool" where
  "symmetric n M = (\<forall>i<n. \<forall>k<n. coeff M i k = coeff M k i)"

text \<open>
  An \<^verbatim>\<open>assert\<close> that fails aborts the call, as in a build with assertions enabled;
  so does a block or element access outside a vector.
\<close>

datatype error = AssertionFailed | OutOfRange

subsection \<open>Objects the skeleton points to\<close>

text \<open>
  Modelled from the spec: \<^verbatim>\<open>GenCoord\<close> and \<^verbatim>\<open>GenCoordSystem\<close> are not among the
  sources. A generalized coordinate is one scalar degree of freedom with its position,
  velocity, acceleration and force, and it knows its index in the skeleton.
\<close>

record gencoord =
  gcPos :: real
  gcVel :: real
  gcAcc :: real
  gcForce :: real
  gcSkelIndex :: int

text \<open>
  What \<^verbatim>\<open>Skeleton.cpp\<close> reads and writes of a \<^verbatim>\<open>BodyNode\<close>: the parent and child
  pointers, the generalized coordinates of the parent joint (\<^verbatim>\<open>mParentJoint\<close>, a
  \<^verbatim>\<open>GenCoordSystem\<close>), the mass, the constraint impulse and the two Jacobian flags.
\<close>

record bodynode =
  mParentBodyNode :: "nat option"
  mChildBodyNodes :: "nat list"
  mParentJoint :: "nat list"
  mMass :: real
  mConstraintImpulse :: vec
  mIsBodyJacobianDirty :: bool
  mIsBodyJacobianTimeDerivDirty :: bool

record softbodynode =
  mKv :: real
  mKe :: real
  mPointMasses :: "nat list"

text \<open>
  Modelled from the spec: a point mass is backed by three generalized coordinates; it
  has a list of connected point masses and a 3D constraint impulse.
\<close>

record pointmass =
  pmGenCoords :: "nat \<times> nat \<times> nat"
  mConnectedPointMasses :: "nat list"
  pmConstraintImpulses :: vec3

text \<open>
  The object tables. \<open>priv\<close> is everything else the bodies, joints and point masses
  keep (transforms, spatial velocities, recursion caches); the skeleton never looks at it.
\<close>

record 'c objects =
  bodies :: "nat \<Rightarrow> bodynode"
  softBodies :: "nat \<Rightarrow> softbodynode"
  pointMasses :: "nat \<Rightarrow> pointmass"
  genCoords :: "nat \<Rightarrow> gencoord"
  priv :: 'c

subsection \<open>Operations of the collaborators\<close>

text \<open>
  The member functions of \<^verbatim>\<open>BodyNode\<close>, \<^verbatim>\<open>Joint\<close> and \<^verbatim>\<open>PointMass\<close> that the
  skeleton calls, with the arguments it passes. The number that goes with a call is the
  address of the body node (of the point mass for the last two).
\<close>

datatype call =
    BodyInit int
  | UpdateTransform
  | UpdateVelocity
  | UpdatePartialAcceleration
  | UpdateAcceleration
  | UpdateArtInertia real
  | UpdateBiasImpulse
  | UpdateJointVelocityChange
  | UpdateBodyImpForceFwdDyn
  | UpdateConstrainedJointAndBodyAcceleration real
  | UpdateConstrainedTransmittedForce real
  | UpdateMassMatrix
  | UpdateInvMassMatrix
  | UpdateInvAugMassMatrix
  | AggregateMassMatrix int
  | AggregateAugMassMatrix int real
  | AggregateInvMassMatrix int
  | AggregateInvAugMassMatrix int real
  | AggregateExternalForces
  | ClearExternalForces
  | JointIntegratePositions real
  | JointIntegrateVelocities real
  | PointMassIntegrateConfigs real
  | PointMassIntegrateGenVels real

text \<open>
  These functions are defined in other files and enter as parameters. A per-body
  operation reads the objects and returns the generalized coordinates and the private
  state; an aggregation additionally receives the coefficients of the matrix or vector
  it is handed by pointer and returns them; \<^verbatim>\<open>BodyNode::init\<close> receives the
  skeleton's list of generalized coordinates and returns it with its own registered.
\<close>

record 'c contract =
  bodyOp :: "call \<Rightarrow> nat \<Rightarrow> 'c objects \<Rightarrow> (nat \<Rightarrow> gencoord) \<times> 'c"
  matOp :: "call \<Rightarrow> nat \<Rightarrow> 'c objects \<Rightarrow> (nat \<Rightarrow> nat \<Rightarrow> real) \<Rightarrow> 'c \<times> (nat \<Rightarrow> nat \<Rightarrow> real)"
  vecOp :: "call \<Rightarrow> nat \<Rightarrow> 'c objects \<Rightarrow> (nat \<Rightarrow> real) \<Rightarrow> 'c \<times> (nat \<Rightarrow> real)"
  initOp :: "nat \<Rightarrow> int \<Rightarrow> nat list \<Rightarrow> 'c objects \<Rightarrow> nat list \<times> (nat \<Rightarrow> gencoord) \<times> 'c"

subsection \<open>The skeleton\<close>

text \<open>
  The members of \<^verbatim>\<open>Skeleton\<close> used by the functions below, the objects it points to,
  and \<open>calls\<close>, the record of every collaborator operation invoked so far.
\<close>

record 'c skeleton =
  mTimeStep :: real
  mGravity :: vec
  mTotalMass :: real
  mIsMobile :: bool
  mBodyNodes :: "nat list"
  mSoftBodyNodes :: "nat list"
  mGenCoords :: "nat list"
  mIsArticulatedInertiaDirty :: bool
  mIsMassMatrixDirty :: bool
  mIsAugMassMatrixDirty :: bool
  mIsInvMassMatrixDirty :: bool
  mIsInvAugMassMatrixDirty :: bool
  mIsCoriolisVectorDirty :: bool
  mIsGravityForceVectorDirty :: bool
  mIsCombinedVectorDirty :: bool
  mIsExternalForceVectorDirty :: bool
  mIsDampingForceVectorDirty :: bool
  mIsImpulseApplied :: bool
  mM :: matrix
  mAugM :: matrix
  mInvM :: matrix
  mInvAugM :: matrix
  mCvec :: vector
  mG :: vector
  mCg :: vector
  mFext :: vector
  mFc :: vector
  mFd :: vector
  objects :: "'c objects"
  calls :: "(call \<times> nat) list"

definition callBody :: "'c contract \<Rightarrow> call \<Rightarrow> nat \<Rightarrow> 'c skeleton \<Rightarrow> 'c skeleton" where
  "callBody ops c b s =
     (let (gs, p) = bodyOp ops c b (objects s)
      in s\<lparr>objects := (objects s)\<lparr>genCoords := gs, priv := p\<rparr>, calls := calls s @ [(c, b)]\<rparr>)"

definition callMat ::
  "'c contract \<Rightarrow> call \<Rightarrow> nat \<Rightarrow> matrix \<Rightarrow> 'c skeleton \<Rightarrow> matrix \<times> 'c skeleton" where
  "callMat ops c b M s =
     (let (p, f) = matOp ops c b (objects s) (coeff M)
      in (M\<lparr>coeff := f\<rparr>, s\<lparr>objects := (objects s)\<lparr>priv := p\<rparr>, calls := calls s @ [(c, b)]\<rparr>))"

definition callVec ::
  "'c contract \<Rightarrow> call \<Rightarrow> nat \<Rightarrow> vector \<Rightarrow> 'c skeleton \<Rightarrow> vector \<times> 'c skeleton" where
  "callVec ops c b v s =
     (let (p, f) = vecOp ops c b (objects s) (vcoeff v)
      in (v\<lparr>vcoeff := f\<rparr>, s\<lparr>objects := (objects s)\<lparr>priv := p\<rparr>, calls := calls s @ [(c, b)]\<rparr>))"

subsection \<open>Generalized coordinates\<close>

text \<open>
  Modelled from the spec: \<^verbatim>\<open>GenCoordSystem\<close>, the flat vector of scalar degrees of
  freedom. \<^verbatim>\<open>getDof\<close> is the number of registered coordinates; a getter collects one
  field of every coordinate in order; a setter stores the given values in order
  (entry \<open>i\<close> of the vector goes to coordinate \<open>i\<close>).
\<close>

definition getDof :: "'c skeleton \<Rightarrow> nat" where
  "getDof s = length (mGenCoords s)"

definition getPositions :: "'c skeleton \<Rightarrow> vec" where
  "getPositions s = map (\<lambda>a. gcPos (genCoords (objects s) a)) (mGenCoords s)"

definition getGenVels :: "'c skeleton \<Rightarrow> vec" where
  "getGenVels s = map (\<lambda>a. gcVel (genCoords (objects s) a)) (mGenCoords s)"

definition getGenAccs :: "'c skeleton \<Rightarrow> vec" where
  "getGenAccs s = map (\<lambda>a. gcAcc (genCoords (objects s) a)) (mGenCoords s)"

definition getGenForces :: "'c skeleton \<Rightarrow> vec" where
  "getGenForces s = map (\<lambda>a. gcForce (genCoords (objects s) a)) (mGenCoords s)"

fun storePos :: "nat \<times> real \<Rightarrow> (nat \<Rightarrow> gencoord) \<Rightarrow> (nat \<Rightarrow> gencoord)" where
  "storePos (a, x) gs = gs(a := (gs a)\<lparr>gcPos := x\<rparr>)"

fun storeVel :: "nat \<times> real \<Rightarrow> (nat \<Rightarrow> gencoord) \<Rightarrow> (nat \<Rightarrow> gencoord)" where
  "storeVel (a, x) gs = gs(a := (gs a)\<lparr>gcVel := x\<rparr>)"

fun storeAcc :: "nat \<times> real \<Rightarrow> (nat \<Rightarrow> gencoord) \<Rightarrow> (nat \<Rightarrow> gencoord)" where
  "storeAcc (a, x) gs = gs(a := (gs a)\<lparr>gcAcc := x\<rparr>)"

fun storeForce :: "nat \<times> real \<Rightarrow> (nat \<Rightarrow> gencoord) \<Rightarrow> (nat \<Rightarrow> gencoord)" where
  "storeForce (a, x) gs = gs(a := (gs a)\<lparr>gcForce := x\<rparr>)"

definition GenCoordSystem_setPositions :: "vec \<Rightarrow> 'c skeleton \<Rightarrow> 'c skeleton" where
  "GenCoordSystem_setPositions v s =
     s\<lparr>objects := (objects s)\<lparr>genCoords :=
          fold storePos (zip (mGenCoords s) v) (genCoords (objects s))\<rparr>\<rparr>"

definition GenCoordSystem_setVelocities :: "vec \<Rightarrow> 'c skeleton \<Rightarrow> 'c skeleton" where
  "GenCoordSystem_setVelocities v s =
     s\<lparr>objects := (objects s)\<lparr>genCoords :=
          fold storeVel (zip (mGenCoords s) v) (genCoords (objects s))\<rparr>\<rparr>"

definition GenCoordSystem_setAccelerations :: "vec \<Rightarrow> 'c skeleton \<Rightarrow> 'c skeleton" where
  "GenCoordSystem_setAccelerations v s =
     s\<lparr>objects := (objects s)\<lparr>genCoords :=
          fold storeAcc (zip (mGenCoords s) v) (genCoords (objects s))\<rparr>\<rparr>"

definition setGenForces :: "vec \<Rightarrow> 'c skeleton \<Rightarrow> 'c skeleton" where
  "setGenForces v s =
     s\<lparr>objects := (objects s)\<lparr>genCoords :=
          fold storeForce (zip (mGenCoords s) v) (genCoords (objects s))\<rparr>\<rparr>"

subsection \<open>Forward kinematics and the state setters\<close>

definition raiseDirtyFlags :: "'c skeleton \<Rightarrow> 'c skeleton" where
  "raiseDirtyFlags s =
     s\<lparr>mIsArticulatedInertiaDirty := True,
       mIsMassMatrixDirty := True,
       mIsAugMassMatrixDirty := True,
       mIsInvMassMatrixDirty := True,
       mIsInvAugMassMatrixDirty := True,
       mIsCoriolisVectorDirty := True,
       mIsGravityForceVectorDirty := True,
       mIsCombinedVectorDirty := True,
       mIsExternalForceVectorDirty := True\<rparr>"

definition markJacobianDirty :: "nat \<Rightarrow> 'c skeleton \<Rightarrow> 'c skeleton" where
  "markJacobianDirty b s =
     s\<lparr>objects := (objects s)\<lparr>bodies := (bodies (objects s))
          (b := (bodies (objects s) b)\<lparr>mIsBodyJacobianDirty := True,
                                        mIsBodyJacobianTimeDerivDirty := True\<rparr>)\<rparr>\<rparr>"

definition computeForwardKinematics ::
  "'c contract \<Rightarrow> bool \<Rightarrow> bool \<Rightarrow> bool \<Rightarrow> 'c skeleton \<Rightarrow> 'c skeleton" where
  "computeForwardKinematics ops updateTransforms updateVels updateAccs s =
     (let s1 = (if updateTransforms
                then fold (callBody ops UpdateTransform) (mBodyNodes s) s else s);
          s2 = (if updateVels
                then fold (\<lambda>b t. callBody ops UpdatePartialAcceleration b
                                   (callBody ops UpdateVelocity b t)) (mBodyNodes s1) s1
                else s1);
          s3 = (if updateAccs
                then fold (callBody ops UpdateAcceleration) (mBodyNodes s2) s2 else s2);
          s4 = raiseDirtyFlags s3
      in fold markJacobianDirty (mBodyNodes s4) s4)"

definition setPositions ::
  "'c contract \<Rightarrow> vec \<Rightarrow> bool \<Rightarrow> bool \<Rightarrow> bool \<Rightarrow> 'c skeleton \<Rightarrow> 'c skeleton" where
  "setPositions ops configs updateTransforms updateVels updateAccs s =
     computeForwardKinematics ops updateTransforms updateVels updateAccs
       (GenCoordSystem_setPositions configs s)"

definition setVelocities ::
  "'c contract \<Rightarrow> vec \<Rightarrow> bool \<Rightarrow> bool \<Rightarrow> 'c skeleton \<Rightarrow> 'c skeleton" where
  "setVelocities ops genVels updateVels updateAccs s =
     computeForwardKinematics ops False updateVels updateAccs
       (GenCoordSystem_setVelocities genVels s)"

definition setAccelerations ::
  "'c contract \<Rightarrow> vec \<Rightarrow> bool \<Rightarrow> 'c skeleton \<Rightarrow> 'c skeleton" where
  "setAccelerations ops genAccs updateAccs s =
     computeForwardKinematics ops False False updateAccs
       (GenCoordSystem_setAccelerations genAccs s)"

definition setState ::
  "'c contract \<Rightarrow> vec \<Rightarrow> bool \<Rightarrow> bool \<Rightarrow> bool \<Rightarrow> 'c skeleton \<Rightarrow> error + 'c skeleton" where
  "setState ops state updateTransforms updateVels updateAccs s =
     (if length state mod 2 \<noteq> 0 then Inl AssertionFailed
      else Inr (computeForwardKinematics ops updateTransforms updateVels updateAccs
                 (GenCoordSystem_setVelocities (drop (length state - length state div 2) state)
                   (GenCoordSystem_setPositions (take (length state div 2) state) s))))"

definition getState :: "'c skeleton \<Rightarrow> vec" where
  "getState s = getPositions s @ getGenVels s"

subsection \<open>Integration\<close>

definition integrateConfigs :: "'c contract \<Rightarrow> real \<Rightarrow> 'c skeleton \<Rightarrow> 'c skeleton" where
  "integrateConfigs ops dt s =
     (let s1 = fold (callBody ops (JointIntegratePositions dt)) (mBodyNodes s) s
      in fold (\<lambda>sb t. fold (callBody ops (PointMassIntegrateConfigs dt))
                         (mPointMasses (softBodies (objects t) sb)) t)
           (mSoftBodyNodes s1) s1)"

definition integrateGenVels :: "'c contract \<Rightarrow> real \<Rightarrow> 'c skeleton \<Rightarrow> 'c skeleton" where
  "integrateGenVels ops dt s =
     (let s1 = fold (callBody ops (JointIntegrateVelocities dt)) (mBodyNodes s) s
      in fold (\<lambda>sb t. fold (callBody ops (PointMassIntegrateGenVels dt))
                         (mPointMasses (softBodies (objects t) sb)) t)
           (mSoftBodyNodes s1) s1)"

subsection \<open>Impulse-based forward dynamics\<close>

definition computeImpulseForwardDynamics :: "'c contract \<Rightarrow> 'c skeleton \<Rightarrow> 'c skeleton" where
  "computeImpulseForwardDynamics ops s =
     (if \<not> mIsMobile s \<or> getDof s = 0 then s
      else
        let s1 = (if mIsArticulatedInertiaDirty s
                  then (fold (\<lambda>b t. callBody ops UpdateBiasImpulse b
                                      (callBody ops (UpdateArtInertia (mTimeStep t)) b t))
                          (rev (mBodyNodes s)) s)\<lparr>mIsArticulatedInertiaDirty := False\<rparr>
                  else fold (callBody ops UpdateBiasImpulse) (rev (mBodyNodes s)) s);
            s2 = fold (\<lambda>b t. callBody ops UpdateBodyImpForceFwdDyn b
                               (callBody ops UpdateJointVelocityChange b t))
                   (mBodyNodes s1) s1
        in fold (\<lambda>b t. callBody ops (UpdateConstrainedTransmittedForce (mTimeStep t)) b
                         (callBody ops (UpdateConstrainedJointAndBodyAcceleration (mTimeStep t)) b t))
             (mBodyNodes s2) s2)"

subsection \<open>Mass matrix and its inverse, column by column\<close>

text \<open>
  \<^verbatim>\<open>mBodyNodes[i]->mParentJoint->getDof()\<close> and
  \<^verbatim>\<open>mBodyNodes[i]->mParentJoint->getIndexInSkeleton(0)\<close>; the second is only
  evaluated for a joint with at least one coordinate.
\<close>

definition jointDof :: "'c skeleton \<Rightarrow> nat \<Rightarrow> int" where
  "jointDof s b = int (length (mParentJoint (bodies (objects s) b)))"

definition jointIndexInSkeleton :: "'c skeleton \<Rightarrow> nat \<Rightarrow> int" where
  "jointIndexInSkeleton s b =
     gcSkelIndex (genCoords (objects s) (hd (mParentJoint (bodies (objects s) b))))"

definition aggregateMassMatrix :: "'c contract \<Rightarrow> int \<Rightarrow> nat \<Rightarrow> 'c skeleton \<Rightarrow> 'c skeleton" where
  "aggregateMassMatrix ops j b s =
     (let (M, s0) = callMat ops (AggregateMassMatrix j) b (mM s) s in s0\<lparr>mM := M\<rparr>)"

definition aggregateAugMassMatrix :: "'c contract \<Rightarrow> int \<Rightarrow> nat \<Rightarrow> 'c skeleton \<Rightarrow> 'c skeleton" where
  "aggregateAugMassMatrix ops j b s =
     (let (M, s0) = callMat ops (AggregateAugMassMatrix j (mTimeStep s)) b (mAugM s) s
      in s0\<lparr>mAugM := M\<rparr>)"

definition aggregateInvMassMatrix :: "'c contract \<Rightarrow> int \<Rightarrow> nat \<Rightarrow> 'c skeleton \<Rightarrow> 'c skeleton" where
  "aggregateInvMassMatrix ops j b s =
     (let (M, s0) = callMat ops (AggregateInvMassMatrix j) b (mInvM s) s in s0\<lparr>mInvM := M\<rparr>)"

definition aggregateInvAugMassMatrix :: "'c contract \<Rightarrow> int \<Rightarrow> nat \<Rightarrow> 'c skeleton \<Rightarrow> 'c skeleton" where
  "aggregateInvAugMassMatrix ops j b s =
     (let (M, s0) = callMat ops (AggregateInvAugMassMatrix j (mTimeStep s)) b (mInvAugM s) s
      in s0\<lparr>mInvAugM := M\<rparr>)"

text \<open>
  The aggregation loops of column \<open>j\<close>. The list is the bodies still to visit:
  \<open>rev (mBodyNodes s)\<close> for the loops that count \<open>i\<close> down from the last body,
  \<open>mBodyNodes s\<close> for those that count up from 0.
\<close>

fun aggregateMassMatrixLoop :: "'c contract \<Rightarrow> int \<Rightarrow> nat list \<Rightarrow> 'c skeleton \<Rightarrow> 'c skeleton" where
  "aggregateMassMatrixLoop ops j [] s = s"
| "aggregateMassMatrixLoop ops j (b # bs) s =
     (let s1 = aggregateMassMatrix ops j b s;
          localDof = jointDof s1 b
      in if localDof > 0
         then (let iStart = jointIndexInSkeleton s1 b
               in if iStart + localDof < j then s1
                  else aggregateMassMatrixLoop ops j bs s1)
         else aggregateMassMatrixLoop ops j bs s1)"

fun aggregateAugMassMatrixLoop :: "'c contract \<Rightarrow> int \<Rightarrow> nat list \<Rightarrow> 'c skeleton \<Rightarrow> 'c skeleton" where
  "aggregateAugMassMatrixLoop ops j [] s = s"
| "aggregateAugMassMatrixLoop ops j (b # bs) s =
     (let s1 = aggregateAugMassMatrix ops j b s;
          localDof = jointDof s1 b
      in if localDof > 0
         then (let iStart = jointIndexInSkeleton s1 b
               in if iStart + localDof < j then s1
                  else aggregateAugMassMatrixLoop ops j bs s1)
         else aggregateAugMassMatrixLoop ops j bs s1)"

fun aggregateInvMassMatrixLoop :: "'c contract \<Rightarrow> int \<Rightarrow> nat list \<Rightarrow> 'c skeleton \<Rightarrow> 'c skeleton" where
  "aggregateInvMassMatrixLoop ops j [] s = s"
| "aggregateInvMassMatrixLoop ops j (b # bs) s =
     (let s1 = aggregateInvMassMatrix ops j b s;
          localDof = jointDof s1 b
      in if localDof > 0
         then (let iStart = jointIndexInSkeleton s1 b
               in if iStart + localDof > j then s1
                  else aggregateInvMassMatrixLoop ops j bs s1)
         else aggregateInvMassMatrixLoop ops j bs s1)"

fun aggregateInvAugMassMatrixLoop :: "'c contract \<Rightarrow> int \<Rightarrow> nat list \<Rightarrow> 'c skeleton \<Rightarrow> 'c skeleton" where
  "aggregateInvAugMassMatrixLoop ops j [] s = s"
| "aggregateInvAugMassMatrixLoop ops j (b # bs) s =
     (let s1 = aggregateInvAugMassMatrix ops j b s;
          localDof = jointDof s1 b
      in if localDof > 0
         then (let iStart = jointIndexInSkeleton s1 b
               in if iStart + localDof > j then s1
                  else aggregateInvAugMassMatrixLoop ops j bs s1)
         else aggregateInvAugMassMatrixLoop ops j bs s1)"

text \<open>
  The same two recursions run over all bodies, without the triangular early exit. They
  are not in the source; the early exit is compared with them.
\<close>

definition aggregateMassMatrixNoBreak ::
  "'c contract \<Rightarrow> int \<Rightarrow> nat list \<Rightarrow> 'c skeleton \<Rightarrow> 'c skeleton" where
  "aggregateMassMatrixNoBreak ops j bs s = fold (aggregateMassMatrix ops j) bs s"


text \<open>One column \<open>j\<close> of each updater: the body of \<^verbatim>\<open>for (int j = 0; j < dof; ++j)\<close>.\<close>

definition massMatrixColumn ::
  "'c contract \<Rightarrow> nat \<Rightarrow> vec \<times> 'c skeleton \<Rightarrow> vec \<times> 'c skeleton" where
  "massMatrixColumn ops j es =
     (let e1 = (fst es)[j := 1];
          s1 = GenCoordSystem_setAccelerations e1 (snd es);
          s2 = fold (callBody ops UpdateMassMatrix) (mBodyNodes s1) s1;
          s3 = aggregateMassMatrixLoop ops (int j) (rev (mBodyNodes s2)) s2
      in (e1[j := 0], s3))"

definition augMassMatrixColumn ::
  "'c contract \<Rightarrow> nat \<Rightarrow> vec \<times> 'c skeleton \<Rightarrow> vec \<times> 'c skeleton" where
  "augMassMatrixColumn ops j es =
     (let e1 = (fst es)[j := 1];
          s1 = GenCoordSystem_setAccelerations e1 (snd es);
          s2 = fold (callBody ops UpdateMassMatrix) (mBodyNodes s1) s1;
          s3 = aggregateAugMassMatrixLoop ops (int j) (rev (mBodyNodes s2)) s2
      in (e1[j := 0], s3))"

definition invMassMatrixColumn ::
  "'c contract \<Rightarrow> nat \<Rightarrow> vec \<times> 'c skeleton \<Rightarrow> vec \<times> 'c skeleton" where
  "invMassMatrixColumn ops j es =
     (let e1 = (fst es)[j := 1];
          s1 = setGenForces e1 (snd es);
          s2 = fold (callBody ops UpdateInvMassMatrix) (rev (mBodyNodes s1)) s1;
          s3 = aggregateInvMassMatrixLoop ops (int j) (mBodyNodes s2) s2
      in (e1[j := 0], s3))"

definition invAugMassMatrixColumn ::
  "'c contract \<Rightarrow> nat \<Rightarrow> vec \<times> 'c skeleton \<Rightarrow> vec \<times> 'c skeleton" where
  "invAugMassMatrixColumn ops j es =
     (let e1 = (fst es)[j := 1];
          s1 = setGenForces e1 (snd es);
          s2 = fold (callBody ops UpdateInvAugMassMatrix) (rev (mBodyNodes s1)) s1;
          s3 = aggregateInvAugMassMatrixLoop ops (int j) (mBodyNodes s2) s2
      in (e1[j := 0], s3))"

definition updateMassMatrix :: "'c contract \<Rightarrow> 'c skeleton \<Rightarrow> error + 'c skeleton" where
  "updateMassMatrix ops s =
     (if \<not> (mcols (mM s) = getDof s \<and> mrows (mM s) = getDof s) then Inl AssertionFailed
      else if \<not> getDof s > 0 then Inl AssertionFailed
      else
        let s1 = s\<lparr>mM := matrixSetZero (mM s)\<rparr>;
            originalGenAcceleration = getGenAccs s1;
            dof = getDof s1;
            e = replicate dof 0;
            s2 = snd (fold (massMatrixColumn ops) [0..<dof] (e, s1));
            s3 = s2\<lparr>mM := mirrorStrictlyUpper (mM s2)\<rparr>;
            s4 = setAccelerations ops originalGenAcceleration False s3
        in Inr (s4\<lparr>mIsMassMatrixDirty := False\<rparr>))"

definition updateAugMassMatrix :: "'c contract \<Rightarrow> 'c skeleton \<Rightarrow> error + 'c skeleton" where
  "updateAugMassMatrix ops s =
     (if \<not> (mcols (mAugM s) = getDof s \<and> mrows (mAugM s) = getDof s) then Inl AssertionFailed
      else if \<not> getDof s > 0 then Inl AssertionFailed
      else
        let s1 = s\<lparr>mAugM := matrixSetZero (mAugM s)\<rparr>;
            originalGenAcceleration = getGenAccs s1;
            dof = getDof s1;
            e = replicate dof 0;
            s2 = snd (fold (augMassMatrixColumn ops) [0..<dof] (e, s1));
            s3 = s2\<lparr>mAugM := mirrorStrictlyUpper (mAugM s2)\<rparr>;
            s4 = GenCoordSystem_setAccelerations originalGenAcceleration s3
        in Inr (s4\<lparr>mIsAugMassMatrixDirty := False\<rparr>))"

definition updateInvMassMatrix :: "'c contract \<Rightarrow> 'c skeleton \<Rightarrow> error + 'c skeleton" where
  "updateInvMassMatrix ops s =
     (if \<not> (mcols (mInvM s) = getDof s \<and> mrows (mInvM s) = getDof s) then Inl AssertionFailed
      else if \<not> getDof s > 0 then Inl AssertionFailed
      else
        let originalInternalForce = getGenForces s;
            s1 = (if mIsArticulatedInertiaDirty s
                  then (fold (\<lambda>b t. callBody ops (UpdateArtInertia (mTimeStep t)) b t)
                          (rev (mBodyNodes s)) s)\<lparr>mIsArticulatedInertiaDirty := False\<rparr>
                  else s);
            dof = getDof s1;
            e = replicate dof 0;
            s2 = snd (fold (invMassMatrixColumn ops) [0..<dof] (e, s1));
            s3 = s2\<lparr>mInvM := mirrorStrictlyLower (mInvM s2)\<rparr>;
            s4 = setGenForces originalInternalForce s3
        in Inr (s4\<lparr>mIsInvMassMatrixDirty := False\<rparr>))"

definition updateInvAugMassMatrix :: "'c contract \<Rightarrow> 'c skeleton \<Rightarrow> error + 'c skeleton" where
  "updateInvAugMassMatrix ops s =
     (if \<not> (mcols (mInvAugM s) = getDof s \<and> mrows (mInvAugM s) = getDof s)
      then Inl AssertionFailed
      else if \<not> getDof s > 0 then Inl AssertionFailed
      else
        let originalInternalForce = getGenForces s;
            dof = getDof s;
            e = replicate dof 0;
            s2 = snd (fold (invAugMassMatrixColumn ops) [0..<dof] (e, s));
            s3 = s2\<lparr>mInvAugM := mirrorStrictlyLower (mInvAugM s2)\<rparr>;
            s4 = setGenForces originalInternalForce s3
        in Inr (s4\<lparr>mIsInvAugMassMatrixDirty := False\<rparr>))"

text \<open>
  The accessors return the cached value and the skeleton they leave behind; they
  recompute only when the dirty flag is set.
\<close>

definition getMassMatrix :: "'c contract \<Rightarrow> 'c skeleton \<Rightarrow> error + matrix \<times> 'c skeleton" where
  "getMassMatrix ops s =
     (if mIsMassMatrixDirty s
      then (case updateMassMatrix ops s of Inl err \<Rightarrow> Inl err | Inr s' \<Rightarrow> Inr (mM s', s'))
      else Inr (mM s, s))"

definition getAugMassMatrix :: "'c contract \<Rightarrow> 'c skeleton \<Rightarrow> error + matrix \<times> 'c skeleton" where
  "getAugMassMatrix ops s =
     (if mIsAugMassMatrixDirty s
      then (case updateAugMassMatrix ops s of Inl err \<Rightarrow> Inl err | Inr s' \<Rightarrow> Inr (mAugM s', s'))
      else Inr (mAugM s, s))"

definition getInvMassMatrix :: "'c contract \<Rightarrow> 'c skeleton \<Rightarrow> error + matrix \<times> 'c skeleton" where
  "getInvMassMatrix ops s =
     (if mIsInvMassMatrixDirty s
      then (case updateInvMassMatrix ops s of Inl err \<Rightarrow> Inl err | Inr s' \<Rightarrow> Inr (mInvM s', s'))
      else Inr (mInvM s, s))"

definition getInvAugMassMatrix :: "'c contract \<Rightarrow> 'c skeleton \<Rightarrow> error + matrix \<times> 'c skeleton" where
  "getInvAugMassMatrix ops s =
     (if mIsInvAugMassMatrixDirty s
      then (case updateInvAugMassMatrix ops s of
              Inl err \<Rightarrow> Inl err | Inr s' \<Rightarrow> Inr (mInvAugM s', s'))
      else Inr (mInvAugM s, s))"

subsection \<open>External force vector\<close>

definition pointMassConfigs :: "'c skeleton \<Rightarrow> nat \<Rightarrow> vec3" where
  "pointMassConfigs s pm =
     (case pmGenCoords (pointMasses (objects s) pm) of
        (a, b, c) \<Rightarrow> (gcPos (genCoords (objects s) a), gcPos (genCoords (objects s) b),
                      gcPos (genCoords (objects s) c)))"

definition pointMassGenVels :: "'c skeleton \<Rightarrow> nat \<Rightarrow> vec3" where
  "pointMassGenVels s pm =
     (case pmGenCoords (pointMasses (objects s) pm) of
        (a, b, c) \<Rightarrow> (gcVel (genCoords (objects s) a), gcVel (genCoords (objects s) b),
                      gcVel (genCoords (objects s) c)))"

text \<open>
  The restoring force of one point mass: the vertex term, then one edge term added for
  each connected point mass, in order.
\<close>

definition pointMassFext :: "'c skeleton \<Rightarrow> real \<Rightarrow> real \<Rightarrow> nat \<Rightarrow> vec3" where
  "pointMassFext s kv ke pm =
     (let nN = real (length (mConnectedPointMasses (pointMasses (objects s) pm)));
          Fext = sub3 (scale3 (- (kv + nN * ke)) (pointMassConfigs s pm))
                      (scale3 (mTimeStep s * (kv + nN * ke)) (pointMassGenVels s pm))
      in fold (\<lambda>n F. add3 F (scale3 ke (add3 (pointMassConfigs s n)
                                               (scale3 (mTimeStep s) (pointMassGenVels s n)))))
           (mConnectedPointMasses (pointMasses (objects s) pm)) Fext)"

text \<open>
  \<^verbatim>\<open>v.segment<3>(iStart) = F\<close>. A block that does not lie inside the vector is an
  index error.
\<close>

definition assignSegment3 :: "int \<Rightarrow> vec3 \<Rightarrow> vector \<Rightarrow> error + vector" where
  "assignSegment3 iStart F v =
     (if iStart < 0 \<or> int (vsize v) < iStart + 3 then Inl OutOfRange
      else case F of (x, y, z) \<Rightarrow>
        Inr (v\<lparr>vcoeff := (vcoeff v)(nat iStart := x, nat iStart + 1 := y, nat iStart + 2 := z)\<rparr>))"

definition pointMassIndexInSkeleton :: "'c skeleton \<Rightarrow> nat \<Rightarrow> int" where
  "pointMassIndexInSkeleton s pm =
     gcSkelIndex (genCoords (objects s) (fst (pmGenCoords (pointMasses (objects s) pm))))"

fun pointMassLoop :: "real \<Rightarrow> real \<Rightarrow> nat list \<Rightarrow> 'c skeleton \<Rightarrow> error + 'c skeleton" where
  "pointMassLoop kv ke [] s = Inr s"
| "pointMassLoop kv ke (pm # pms) s =
     (case assignSegment3 (pointMassIndexInSkeleton s pm) (pointMassFext s kv ke pm) (mFext s) of
        Inl err \<Rightarrow> Inl err
      | Inr v \<Rightarrow> pointMassLoop kv ke pms (s\<lparr>mFext := v\<rparr>))"

fun softBodyLoop :: "nat list \<Rightarrow> 'c skeleton \<Rightarrow> error + 'c skeleton" where
  "softBodyLoop [] s = Inr s"
| "softBodyLoop (sb # sbs) s =
     (case pointMassLoop (mKv (softBodies (objects s) sb)) (mKe (softBodies (objects s) sb))
             (mPointMasses (softBodies (objects s) sb)) s of
        Inl err \<Rightarrow> Inl err
      | Inr s' \<Rightarrow> softBodyLoop sbs s')"

definition aggregateExternalForces :: "'c contract \<Rightarrow> nat \<Rightarrow> 'c skeleton \<Rightarrow> 'c skeleton" where
  "aggregateExternalForces ops b s =
     (let (v, s0) = callVec ops AggregateExternalForces b (mFext s) s in s0\<lparr>mFext := v\<rparr>)"

definition updateExternalForceVector :: "'c contract \<Rightarrow> 'c skeleton \<Rightarrow> error + 'c skeleton" where
  "updateExternalForceVector ops s =
     (if vsize (mFext s) \<noteq> getDof s then Inl AssertionFailed
      else if \<not> getDof s > 0 then Inl AssertionFailed
      else
        let s1 = s\<lparr>mFext := vectorSetZero (mFext s)\<rparr>;
            s2 = fold (aggregateExternalForces ops) (rev (mBodyNodes s1)) s1
        in case softBodyLoop (mSoftBodyNodes s2) s2 of
             Inl err \<Rightarrow> Inl err
           | Inr s3 \<Rightarrow> Inr (s3\<lparr>mIsExternalForceVectorDirty := False\<rparr>))"

definition getExternalForceVector ::
  "'c contract \<Rightarrow> 'c skeleton \<Rightarrow> error + vector \<times> 'c skeleton" where
  "getExternalForceVector ops s =
     (if mIsExternalForceVectorDirty s
      then (case updateExternalForceVector ops s of
              Inl err \<Rightarrow> Inl err | Inr s' \<Rightarrow> Inr (mFext s', s'))
      else Inr (mFext s, s))"

subsection \<open>Initialization\<close>

definition computeForwardDynamicsRecursionPartA :: "'c contract \<Rightarrow> 'c skeleton \<Rightarrow> 'c skeleton" where
  "computeForwardDynamicsRecursionPartA ops s =
     (let s1 = fold (\<lambda>b t. callBody ops UpdatePartialAcceleration b
                             (callBody ops UpdateVelocity b
                               (callBody ops UpdateTransform b t))) (mBodyNodes s) s;
          s2 = raiseDirtyFlags s1
      in fold markJacobianDirty (mBodyNodes s2) s2)"

definition clearExternalForces :: "'c contract \<Rightarrow> 'c skeleton \<Rightarrow> 'c skeleton" where
  "clearExternalForces ops s = fold (callBody ops ClearExternalForces) (mBodyNodes s) s"

definition clearInternalForces :: "'c skeleton \<Rightarrow> 'c skeleton" where
  "clearInternalForces s = setGenForces (replicate (getDof s) 0) s"

text \<open>
  The breadth-first rearrangement of \<^verbatim>\<open>init\<close>: the front of the queue is popped and
  appended to the new sequence, then its children are pushed in their stored order. The
  loop ends when the queue is empty; on a cyclic child structure it never does, and the
  result is \<open>None\<close>.
\<close>

partial_function (option) bfsLoop ::
  "(nat \<Rightarrow> nat list) \<Rightarrow> nat list \<Rightarrow> nat list \<Rightarrow> nat list option" where
  "bfsLoop children queue nodes =
     (case queue of
        [] \<Rightarrow> Some nodes
      | itBodyNode # rest \<Rightarrow> bfsLoop children (rest @ children itBodyNode) (nodes @ [itBodyNode]))"

definition callInit :: "'c contract \<Rightarrow> nat \<times> nat \<Rightarrow> 'c skeleton \<Rightarrow> 'c skeleton" where
  "callInit ops ib s =
     (case initOp ops (snd ib) (int (fst ib)) (mGenCoords s) (objects s) of
        (gl, gs, p) \<Rightarrow>
          s\<lparr>mGenCoords := gl,
            objects := (objects s)\<lparr>genCoords := gs, priv := p\<rparr>,
            calls := calls s @ [(BodyInit (int (fst ib)), snd ib)]\<rparr>)"

text \<open>What \<^verbatim>\<open>init\<close> does once the body nodes are rearranged.\<close>

definition initBodiesAndBuffers :: "'c contract \<Rightarrow> 'c skeleton \<Rightarrow> 'c skeleton" where
  "initBodiesAndBuffers ops s =
     (let s1 = s\<lparr>mGenCoords := []\<rparr>;
          s2 = fold (callInit ops) (enumerate 0 (mBodyNodes s1)) s1;
          s3 = computeForwardDynamicsRecursionPartA ops s2;
          dof = getDof s3;
          s4 = s3\<lparr>mM := matrixZero dof dof,
                  mAugM := matrixZero dof dof,
                  mInvM := matrixZero dof dof,
                  mInvAugM := matrixZero dof dof,
                  mCvec := vectorZero dof,
                  mG := vectorZero dof,
                  mCg := vectorZero dof,
                  mFext := vectorZero dof,
                  mFc := vectorZero dof,
                  mFd := vectorZero dof\<rparr>;
          s5 = clearInternalForces (clearExternalForces ops s4)
      in s5\<lparr>mTotalMass := fold (\<lambda>b m. m + mMass (bodies (objects s5) b)) (mBodyNodes s5) 0\<rparr>)"

text \<open>
  \<^verbatim>\<open>init\<close>. \<open>None\<close>: the call does not return. \<open>Some (Inl err)\<close>: the assertion
  of \<^verbatim>\<open>setTimeStep\<close> fails, or \<^verbatim>\<open>mBodyNodes[0]\<close> is read from an empty vector.
\<close>

definition init ::
  "'c contract \<Rightarrow> real \<Rightarrow> vec \<Rightarrow> 'c skeleton \<Rightarrow> (error + 'c skeleton) option" where
  "init ops timeStep gravity s =
     (if \<not> timeStep > 0 then Some (Inl AssertionFailed)
      else
        let s1 = s\<lparr>mTimeStep := timeStep, mGravity := gravity\<rparr>
        in case mBodyNodes s1 of
             [] \<Rightarrow> Some (Inl OutOfRange)
           | front # others \<Rightarrow>
               (case bfsLoop (\<lambda>b. mChildBodyNodes (bodies (objects s1) b)) [front] [] of
                  None \<Rightarrow> None
                | Some nodes \<Rightarrow> Some (Inr (initBodiesAndBuffers ops (s1\<lparr>mBodyNodes := nodes\<rparr>)))))"

subsection \<open>Bias impulses\<close>

text \<open>
  \<^verbatim>\<open>while (it != NULL) { it->updateBiasImpulse(); it = it->getParentBodyNode(); }\<close>.
  On a cyclic parent chain the loop does not end, and the result is \<open>None\<close>.
\<close>

partial_function (option) biasImpulseWalk ::
  "'c contract \<Rightarrow> nat option \<Rightarrow> 'c skeleton \<Rightarrow> 'c skeleton option" where
  "biasImpulseWalk ops it s =
     (case it of
        None \<Rightarrow> Some s
      | Some b \<Rightarrow>
          biasImpulseWalk ops
            (mParentBodyNode (bodies (objects (callBody ops UpdateBiasImpulse b s)) b))
            (callBody ops UpdateBiasImpulse b s))"

definition zero6 :: vec where
  "zero6 = replicate 6 0"

definition allConstraintImpulsesZero :: "'c skeleton \<Rightarrow> bool" where
  "allConstraintImpulsesZero s =
     list_all (\<lambda>b. mConstraintImpulse (bodies (objects s) b) = zero6) (mBodyNodes s)"

definition setBodyConstraintImpulse :: "nat \<Rightarrow> vec \<Rightarrow> 'c skeleton \<Rightarrow> 'c skeleton" where
  "setBodyConstraintImpulse b imp s =
     s\<lparr>objects := (objects s)\<lparr>bodies := (bodies (objects s))
          (b := (bodies (objects s) b)\<lparr>mConstraintImpulse := imp\<rparr>)\<rparr>\<rparr>"

text \<open>
  Modelled from the spec: \<^verbatim>\<open>PointMass::setConstraintImpulse(imp, true)\<close> and
  \<^verbatim>\<open>setConstraintImpulses(imp)\<close> both store the point mass's constraint impulses,
  and \<^verbatim>\<open>getConstraintImpulses()\<close> reads them.
\<close>

definition setPointMassConstraintImpulses :: "nat \<Rightarrow> vec3 \<Rightarrow> 'c skeleton \<Rightarrow> 'c skeleton" where
  "setPointMassConstraintImpulses pm imp s =
     s\<lparr>objects := (objects s)\<lparr>pointMasses := (pointMasses (objects s))
          (pm := (pointMasses (objects s) pm)\<lparr>pmConstraintImpulses := imp\<rparr>)\<rparr>\<rparr>"

text \<open>
  The three overloads of \<^verbatim>\<open>updateBiasImpulse\<close>. A pointer argument that may be null
  is an optional address. \<open>None\<close>: the call does not return; \<open>Some (Inl err)\<close>: one
  of the assertions fails.
\<close>

definition updateBiasImpulse ::
  "'c contract \<Rightarrow> nat option \<Rightarrow> 'c skeleton \<Rightarrow> (error + 'c skeleton) option" where
  "updateBiasImpulse ops bodyNode s =
     (case bodyNode of
        None \<Rightarrow> Some (Inl AssertionFailed)
      | Some b \<Rightarrow>
          if \<not> getDof s > 0 then Some (Inl AssertionFailed)
          else if b \<notin> set (mBodyNodes s) then Some (Inl AssertionFailed)
          else if \<not> allConstraintImpulsesZero s then Some (Inl AssertionFailed)
          else map_option Inr (biasImpulseWalk ops (Some b) s))"

definition updateBiasImpulse_imp ::
  "'c contract \<Rightarrow> nat option \<Rightarrow> vec \<Rightarrow> 'c skeleton \<Rightarrow> (error + 'c skeleton) option" where
  "updateBiasImpulse_imp ops bodyNode imp s =
     (case bodyNode of
        None \<Rightarrow> Some (Inl AssertionFailed)
      | Some b \<Rightarrow>
          if \<not> getDof s > 0 then Some (Inl AssertionFailed)
          else if b \<notin> set (mBodyNodes s) then Some (Inl AssertionFailed)
          else if \<not> allConstraintImpulsesZero s then Some (Inl AssertionFailed)
          else
            (case biasImpulseWalk ops (Some b) (setBodyConstraintImpulse b imp s) of
               None \<Rightarrow> None
             | Some s' \<Rightarrow> Some (Inr (setBodyConstraintImpulse b zero6 s'))))"

definition updateBiasImpulse_pointMass ::
  "'c contract \<Rightarrow> nat option \<Rightarrow> nat \<Rightarrow> vec3 \<Rightarrow> 'c skeleton \<Rightarrow> (error + 'c skeleton) option" where
  "updateBiasImpulse_pointMass ops softBodyNode pointMass imp s =
     (case softBodyNode of
        None \<Rightarrow> Some (Inl AssertionFailed)
      | Some sb \<Rightarrow>
          if \<not> getDof s > 0 then Some (Inl AssertionFailed)
          else if sb \<notin> set (mSoftBodyNodes s) then Some (Inl AssertionFailed)
          else if \<not> allConstraintImpulsesZero s then Some (Inl AssertionFailed)
          else
            (let oldConstraintImpulse = pmConstraintImpulses (pointMasses (objects s) pointMass)
             in (case biasImpulseWalk ops (Some sb)
                        (setPointMassConstraintImpulses pointMass imp s) of
                   None \<Rightarrow> None
                 | Some s' \<Rightarrow>
                     Some (Inr (setPointMassConstraintImpulses pointMass
                                  oldConstraintImpulse s')))))"

subsection \<open>The dirty flags of the skeleton\<close>

text \<open>The nine flags that \<^verbatim>\<open>computeForwardKinematics\<close> raises, in its order.\<close>

definition dirtyFlags :: "'c skeleton \<Rightarrow> bool list" where
  "dirtyFlags s =
     [mIsArticulatedInertiaDirty s, mIsMassMatrixDirty s, mIsAugMassMatrixDirty s,
      mIsInvMassMatrixDirty s, mIsInvAugMassMatrixDirty s, mIsCoriolisVectorDirty s,
      mIsGravityForceVectorDirty s, mIsCombinedVectorDirty s, mIsExternalForceVectorDirty s]"

subsection \<open>What a cache update may change\<close>

text \<open>
  \<open>frame P s t\<close>: the skeleton \<open>t\<close> differs from \<open>s\<close> at most in the coefficients
  of the four matrices and of \<open>mFext\<close>, in the generalized coordinates and the
  private state of the objects, and in the record of calls, which is that of \<open>s\<close>
  extended by calls that all satisfy \<open>P\<close>.
\<close>

definition frame :: "(call \<Rightarrow> bool) \<Rightarrow> 'c skeleton \<Rightarrow> 'c skeleton \<Rightarrow> bool" where
  "frame P s t \<longleftrightarrow>
     mTimeStep t = mTimeStep s \<and> mGravity t = mGravity s \<and> mTotalMass t = mTotalMass s
   \<and> mIsMobile t = mIsMobile s \<and> mBodyNodes t = mBodyNodes s
   \<and> mSoftBodyNodes t = mSoftBodyNodes s \<and> mGenCoords t = mGenCoords s
   \<and> dirtyFlags t = dirtyFlags s
   \<and> mIsDampingForceVectorDirty t = mIsDampingForceVectorDirty s
   \<and> mIsImpulseApplied t = mIsImpulseApplied s
   \<and> mrows (mM t) = mrows (mM s) \<and> mcols (mM t) = mcols (mM s)
   \<and> mrows (mAugM t) = mrows (mAugM s) \<and> mcols (mAugM t) = mcols (mAugM s)
   \<and> mrows (mInvM t) = mrows (mInvM s) \<and> mcols (mInvM t) = mcols (mInvM s)
   \<and> mrows (mInvAugM t) = mrows (mInvAugM s) \<and> mcols (mInvAugM t) = mcols (mInvAugM s)
   \<and> mCvec t = mCvec s \<and> mG t = mG s \<and> mCg t = mCg s
   \<and> vsize (mFext t) = vsize (mFext s) \<and> mFc t = mFc s \<and> mFd t = mFd s
   \<and> bodies (objects t) = bodies (objects s)
   \<and> softBodies (objects t) = softBodies (objects s)
   \<and> pointMasses (objects t) = pointMasses (objects s)
   \<and> (\<exists>l. calls t = calls s @ l \<and> list_all (\<lambda>ev. P (fst ev)) l)"

fun isUpdateArtInertia :: "call \<Rightarrow> bool" where
  "isUpdateArtInertia (UpdateArtInertia dt) = True"
| "isUpdateArtInertia c = False"

subsection \<open>The restoring force of a point mass, in closed form\<close>

text \<open>
  \<open>springForce\<close> is the force as the specification writes it:
  \<open>- (kv + n ke) q - dt (kv + n ke) dq + (\<Sum>j. ke (q\<^sub>j + dt dq\<^sub>j))\<close>, for the point mass
  \<open>p\<close> of the soft body \<open>sb\<close> with \<open>n\<close> connected point masses \<open>j\<close>.
  \<open>segment3 v i\<close> is the block of three coefficients of \<open>v\<close> that starts at \<open>i\<close>.
  \<open>pointMassVisits\<close> lists the point masses in the order the updater visits them, each
  with its soft body; \<open>blocksInRange\<close> and \<open>blocksDisjoint\<close> say that their blocks of
  three coordinates lie inside the vector and do not overlap. \<open>assignSegments\<close> performs
  a list of block assignments in order.
\<close>

definition zero3 :: vec3 where
  "zero3 = (0, 0, 0)"

definition sum3 :: "vec3 list \<Rightarrow> vec3" where
  "sum3 xs = foldr add3 xs zero3"

definition springForce :: "'c skeleton \<Rightarrow> nat \<Rightarrow> nat \<Rightarrow> vec3" where
  "springForce s sb p =
     (let kv = mKv (softBodies (objects s) sb);
          ke = mKe (softBodies (objects s) sb);
          dt = mTimeStep s;
          neighbors = mConnectedPointMasses (pointMasses (objects s) p);
          n = real (length neighbors)
      in add3 (sub3 (scale3 (- (kv + n * ke)) (pointMassConfigs s p))
                    (scale3 (dt * (kv + n * ke)) (pointMassGenVels s p)))
              (sum3 (map (\<lambda>j. scale3 ke (add3 (pointMassConfigs s j)
                                                (scale3 dt (pointMassGenVels s j))))
                      neighbors)))"

definition segment3 :: "vector \<Rightarrow> int \<Rightarrow> vec3" where
  "segment3 v i = (vcoeff v (nat i), vcoeff v (nat i + 1), vcoeff v (nat i + 2))"

definition pointMassVisits :: "'c skeleton \<Rightarrow> (nat \<times> nat) list" where
  "pointMassVisits s =
     concat (map (\<lambda>sb. map (Pair sb) (mPointMasses (softBodies (objects s) sb)))
               (mSoftBodyNodes s))"

definition blocksInRange :: "'c skeleton \<Rightarrow> bool" where
  "blocksInRange s \<longleftrightarrow>
     (\<forall>v \<in> set (pointMassVisits s).
        0 \<le> pointMassIndexInSkeleton s (snd v)
      \<and> pointMassIndexInSkeleton s (snd v) + 3 \<le> int (getDof s))"

definition blocksDisjoint :: "'c skeleton \<Rightarrow> bool" where
  "blocksDisjoint s \<longleftrightarrow>
     (\<forall>n<length (pointMassVisits s). \<forall>m<n.
        3 \<le> \<bar>pointMassIndexInSkeleton s (snd (pointMassVisits s ! n))
              - pointMassIndexInSkeleton s (snd (pointMassVisits s ! m))\<bar>)"

definition pointMassWrite :: "'c skeleton \<Rightarrow> nat \<times> nat \<Rightarrow> int \<times> vec3" where
  "pointMassWrite s v =
     (pointMassIndexInSkeleton s (snd v),
      pointMassFext s (mKv (softBodies (objects s) (fst v))) (mKe (softBodies (objects s) (fst v)))
        (snd v))"

fun assignSegments :: "(int \<times> vec3) list \<Rightarrow> vector \<Rightarrow> error + vector" where
  "assignSegments [] v = Inr v"
| "assignSegments (w # ws) v =
     (case assignSegment3 (fst w) (snd w) v of
        Inl err \<Rightarrow> Inl err
      | Inr v' \<Rightarrow> assignSegments ws v')"

subsection \<open>Body trees and parent chains\<close>

text \<open>
  \<open>parentOf s\<close> is the parent pointer of each body. \<open>reachesRoot parent b\<close>: following
  the parent pointers from \<open>b\<close> ends at a body without parent. \<open>formsTree B t\<close>: the
  child and parent pointers of the body table \<open>B\<close> below the root of \<open>t\<close> are those of
  the finite tree \<open>t\<close> (the children of a body are the roots of its subtrees, in their
  stored order, and each of them points back to it). \<open>parentsPrecede B ns\<close>: in the
  sequence \<open>ns\<close> the parent of every element but the first occurs at a strictly smaller
  index. \<open>bfsInvariant\<close> is the same property of the sequence under construction
  followed by the queue, with every parent already in the sequence.
\<close>

inductive reachesRoot :: "(nat \<Rightarrow> nat option) \<Rightarrow> nat \<Rightarrow> bool" for parent where
  atRoot: "parent b = None \<Longrightarrow> reachesRoot parent b"
| below: "parent b = Some p \<Longrightarrow> reachesRoot parent p \<Longrightarrow> reachesRoot parent b"

definition parentOf :: "'c skeleton \<Rightarrow> nat \<Rightarrow> nat option" where
  "parentOf s = (\<lambda>b. mParentBodyNode (bodies (objects s) b))"

datatype bodytree = BodyTree nat "bodytree list"

fun treeRoot :: "bodytree \<Rightarrow> nat" where
  "treeRoot (BodyTree b ts) = b"

fun treeSize :: "bodytree \<Rightarrow> nat" where
  "treeSize (BodyTree b ts) = Suc (sum_list (map treeSize ts))"

fun treeNodes :: "bodytree \<Rightarrow> nat set" where
  "treeNodes (BodyTree b ts) = insert b (\<Union>t \<in> set ts. treeNodes t)"

fun formsTree :: "(nat \<Rightarrow> bodynode) \<Rightarrow> bodytree \<Rightarrow> bool" where
  "formsTree B (BodyTree b ts) =
     (mChildBodyNodes (B b) = map treeRoot ts
      \<and> (\<forall>t \<in> set ts. mParentBodyNode (B (treeRoot t)) = Some b \<and> formsTree B t))"

definition parentsPrecede :: "(nat \<Rightarrow> bodynode) \<Rightarrow> nat list \<Rightarrow> bool" where
  "parentsPrecede B ns \<longleftrightarrow>
     (\<forall>k<length ns. 0 < k \<longrightarrow> (\<exists>p<k. mParentBodyNode (B (ns ! k)) = Some (ns ! p)))"

definition bfsInvariant :: "(nat \<Rightarrow> bodynode) \<Rightarrow> nat list \<Rightarrow> nat list \<Rightarrow> bool" where
  "bfsInvariant B nodes queue \<longleftrightarrow>
     (\<forall>k<length (nodes @ queue). 0 < k \<longrightarrow>
        (\<exists>p<k. p < length nodes
           \<and> mParentBodyNode (B ((nodes @ queue) ! k)) = Some ((nodes @ queue) ! p)))"

subsection \<open>The rows a body aggregates into\<close>

text \<open>
  \<open>inJointRows ob b r\<close>: row \<open>r\<close> is one of the skeleton indices of the coordinates
  of the parent joint of body \<open>b\<close>, that is
  \<open>iStart \<le> r < iStart + localDof\<close> with the two values the early exit reads.
  \<open>inPointMassRows ob b r\<close>: row \<open>r\<close> lies in the block of three coordinates of one
  of the point masses of \<open>b\<close>. \<open>bodyRows s b r\<close>: row \<open>r\<close> belongs to body \<open>b\<close>, as
  a row of its joint or, when \<open>b\<close> is a soft body of the skeleton, of one of its point
  masses.

  \<open>writesBodyRows ops s\<close> is the contract of \<^verbatim>\<open>aggregateMassMatrix(&M, col)\<close> and
  \<^verbatim>\<open>aggregateInvMassMatrix(&M, col)\<close> on the bodies of \<open>s\<close>, whatever their private
  state: a body writes column \<open>col\<close> in its own rows and no other coefficient.

  \<open>rowsBefore s b x\<close>: every row of \<open>b\<close> is smaller than \<open>x\<close>;
  \<open>rowsFrom s b x\<close>: every row of \<open>b\<close> is at least \<open>x\<close>.
  \<open>bodyRowsAscend s\<close>: for a body \<open>b\<close> that precedes a body \<open>k\<close> in \<open>mBodyNodes\<close>,
  the rows of \<open>b\<close> end before the joint rows of \<open>k\<close> end, and the rows of \<open>k\<close> start
  where the joint rows of \<open>b\<close> end or later. \<open>jointRangesAscend s\<close> says the same of
  the joint rows alone.
\<close>

definition inJointRows :: "'c objects \<Rightarrow> nat \<Rightarrow> nat \<Rightarrow> bool" where
  "inJointRows ob b r \<longleftrightarrow>
     mParentJoint (bodies ob b) \<noteq> []
   \<and> gcSkelIndex (genCoords ob (hd (mParentJoint (bodies ob b)))) \<le> int r
   \<and> int r < gcSkelIndex (genCoords ob (hd (mParentJoint (bodies ob b))))
              + int (length (mParentJoint (bodies ob b)))"

definition inPointMassRows :: "'c objects \<Rightarrow> nat \<Rightarrow> nat \<Rightarrow> bool" where
  "inPointMassRows ob b r \<longleftrightarrow>
     (\<exists>p \<in> set (mPointMasses (softBodies ob b)).
        gcSkelIndex (genCoords ob (fst (pmGenCoords (pointMasses ob p)))) \<le> int r
      \<and> int r < gcSkelIndex (genCoords ob (fst (pmGenCoords (pointMasses ob p)))) + 3)"

definition bodyRows :: "'c skeleton \<Rightarrow> nat \<Rightarrow> nat \<Rightarrow> bool" where
  "bodyRows s b r \<longleftrightarrow>
     inJointRows (objects s) b r
   \<or> (b \<in> set (mSoftBodyNodes s) \<and> inPointMassRows (objects s) b r)"

definition writesBodyRows :: "'c contract \<Rightarrow> 'c skeleton \<Rightarrow> bool" where
  "writesBodyRows ops s \<longleftrightarrow>
     (\<forall>j b pv M r k. \<not> (int k = j \<and> bodyRows s b r) \<longrightarrow>
        snd (matOp ops (AggregateMassMatrix j) b ((objects s)\<lparr>priv := pv\<rparr>) M) r k = M r k
      \<and> snd (matOp ops (AggregateInvMassMatrix j) b ((objects s)\<lparr>priv := pv\<rparr>) M) r k = M r k)"

definition rowsBefore :: "'c skeleton \<Rightarrow> nat \<Rightarrow> int \<Rightarrow> bool" where
  "rowsBefore s b x \<longleftrightarrow>
     (0 < jointDof s b \<longrightarrow> jointIndexInSkeleton s b + jointDof s b \<le> x)
   \<and> (b \<in> set (mSoftBodyNodes s) \<longrightarrow>
        (\<forall>p \<in> set (mPointMasses (softBodies (objects s) b)).
           pointMassIndexInSkeleton s p + 3 \<le> x))"

definition rowsFrom :: "'c skeleton \<Rightarrow> nat \<Rightarrow> int \<Rightarrow> bool" where
  "rowsFrom s b x \<longleftrightarrow>
     (0 < jointDof s b \<longrightarrow> x \<le> jointIndexInSkeleton s b)
   \<and> (b \<in> set (mSoftBodyNodes s) \<longrightarrow>
        (\<forall>p \<in> set (mPointMasses (softBodies (objects s) b)).
           x \<le> pointMassIndexInSkeleton s p))"

definition bodyRowsAscend :: "'c skeleton \<Rightarrow> bool" where
  "bodyRowsAscend s =
     sorted_wrt (\<lambda>b k.
         (0 < jointDof s k \<longrightarrow> rowsBefore s b (jointIndexInSkeleton s k + jointDof s k))
       \<and> (0 < jointDof s b \<longrightarrow> rowsFrom s k (jointIndexInSkeleton s b + jointDof s b)))
       (mBodyNodes s)"


section \<open>Example skeletons\<close>

text \<open>
  Collaborators that integrate the joint coordinates with an explicit Euler step,
  register the joint coordinates of a body on \<^verbatim>\<open>init\<close> and do nothing else, and a chain
  of two bodies with one revolute joint each, every cached quantity valid.
\<close>

definition nullBody :: bodynode where
  "nullBody = \<lparr>mParentBodyNode = None, mChildBodyNodes = [], mParentJoint = [], mMass = 0,
     mConstraintImpulse = zero6, mIsBodyJacobianDirty = False,
     mIsBodyJacobianTimeDerivDirty = False\<rparr>"

definition eulerOps :: "unit contract" where
  "eulerOps =
     \<lparr>bodyOp = (\<lambda>c b ob. case c of
          JointIntegratePositions dt \<Rightarrow>
            (fold (\<lambda>a gs. gs(a := (gs a)\<lparr>gcPos := gcPos (gs a) + dt * gcVel (gs a)\<rparr>))
               (mParentJoint (bodies ob b)) (genCoords ob), priv ob)
        | JointIntegrateVelocities dt \<Rightarrow>
            (fold (\<lambda>a gs. gs(a := (gs a)\<lparr>gcVel := gcVel (gs a) + dt * gcAcc (gs a)\<rparr>))
               (mParentJoint (bodies ob b)) (genCoords ob), priv ob)
        | _ \<Rightarrow> (genCoords ob, priv ob)),
      matOp = (\<lambda>c b ob M. (priv ob, M)),
      vecOp = (\<lambda>c b ob v. (priv ob, v)),
      initOp = (\<lambda>b i gl ob.
          (gl @ mParentJoint (bodies ob b),
           fold (\<lambda>ka gs. gs(snd ka := (gs (snd ka))\<lparr>gcSkelIndex := int (length gl + fst ka)\<rparr>))
             (enumerate 0 (mParentJoint (bodies ob b))) (genCoords ob),
           priv ob))\<rparr>"

definition chainObjects :: "unit objects" where
  "chainObjects =
     \<lparr>bodies = (\<lambda>b. nullBody)
        (0 := nullBody\<lparr>mChildBodyNodes := [1], mParentJoint := [0], mMass := 1\<rparr>,
         1 := nullBody\<lparr>mParentBodyNode := Some 0, mParentJoint := [1], mMass := 1\<rparr>),
      softBodies = (\<lambda>b. \<lparr>mKv = 0, mKe = 0, mPointMasses = []\<rparr>),
      pointMasses = (\<lambda>p. \<lparr>pmGenCoords = (0, 0, 0), mConnectedPointMasses = [],
                          pmConstraintImpulses = (0, 0, 0)\<rparr>),
      genCoords = (\<lambda>a. \<lparr>gcPos = 0, gcVel = 1, gcAcc = 0, gcForce = 0, gcSkelIndex = int a\<rparr>),
      priv = ()\<rparr>"

definition chainSkeleton :: "unit skeleton" where
  "chainSkeleton =
     \<lparr>mTimeStep = 1 / 1000, mGravity = [0, 0, - 981 / 100], mTotalMass = 2, mIsMobile = True,
      mBodyNodes = [0, 1], mSoftBodyNodes = [], mGenCoords = [0, 1],
      mIsArticulatedInertiaDirty = False, mIsMassMatrixDirty = False,
      mIsAugMassMatrixDirty = False, mIsInvMassMatrixDirty = False,
      mIsInvAugMassMatrixDirty = False, mIsCoriolisVectorDirty = False,
      mIsGravityForceVectorDirty = False, mIsCombinedVectorDirty = False,
      mIsExternalForceVectorDirty = False, mIsDampingForceVectorDirty = True,
      mIsImpulseApplied = False,
      mM = matrixZero 2 2, mAugM = matrixZero 2 2, mInvM = matrixZero 2 2,
      mInvAugM = matrixZero 2 2,
      mCvec = vectorZero 2, mG = vectorZero 2, mCg = vectorZero 2, mFext = vectorZero 2,
      mFc = vectorZero 2, mFd = vectorZero 2,
      objects = chainObjects, calls = []\<rparr>"

text \<open>
  A rigid root with one joint coordinate and a soft child with a single point mass on
  coordinates 1 to 3, displaced by 0.1 along the first axis and at rest; vertex stiffness
  10, time step 0.01, every cached quantity to be recomputed.
\<close>

definition softObjects :: "unit objects" where
  "softObjects =
     \<lparr>bodies = (\<lambda>b. nullBody)
        (0 := nullBody\<lparr>mChildBodyNodes := [1], mParentJoint := [0], mMass := 1\<rparr>,
         1 := nullBody\<lparr>mParentBodyNode := Some 0, mMass := 1\<rparr>),
      softBodies = (\<lambda>b. \<lparr>mKv = 10, mKe = 5, mPointMasses = []\<rparr>)
        (1 := \<lparr>mKv = 10, mKe = 5, mPointMasses = [0]\<rparr>),
      pointMasses = (\<lambda>p. \<lparr>pmGenCoords = (1, 2, 3), mConnectedPointMasses = [],
                          pmConstraintImpulses = (0, 0, 0)\<rparr>),
      genCoords = (\<lambda>a. \<lparr>gcPos = 0, gcVel = 0, gcAcc = 0, gcForce = 0, gcSkelIndex = int a\<rparr>)
        (1 := \<lparr>gcPos = 1 / 10, gcVel = 0, gcAcc = 0, gcForce = 0, gcSkelIndex = 1\<rparr>),
      priv = ()\<rparr>"

definition softSkeleton :: "unit skeleton" where
  "softSkeleton =
     \<lparr>mTimeStep = 1 / 100, mGravity = [0, 0, - 981 / 100], mTotalMass = 2, mIsMobile = True,
      mBodyNodes = [0, 1], mSoftBodyNodes = [1], mGenCoords = [0, 1, 2, 3],
      mIsArticulatedInertiaDirty = True, mIsMassMatrixDirty = True,
      mIsAugMassMatrixDirty = True, mIsInvMassMatrixDirty = True,
      mIsInvAugMassMatrixDirty = True, mIsCoriolisVectorDirty = True,
      mIsGravityForceVectorDirty = True, mIsCombinedVectorDirty = True,
      mIsExternalForceVectorDirty = True, mIsDampingForceVectorDirty = True,
      mIsImpulseApplied = False,
      mM = matrixZero 4 4, mAugM = matrixZero 4 4, mInvM = matrixZero 4 4,
      mInvAugM = matrixZero 4 4,
      mCvec = vectorZero 4, mG = vectorZero 4, mCg = vectorZero 4, mFext = vectorZero 4,
      mFc = vectorZero 4, mFd = vectorZero 4,
      objects = softObjects, calls = []\<rparr>"

text \<open>
  A root with two children, the first of which has a child of its own, registered in
  the order root, grandchild, second child, first child.
\<close>

definition branchObjects :: "unit objects" where
  "branchObjects =
     \<lparr>bodies = (\<lambda>b. nullBody)
        (0 := nullBody\<lparr>mChildBodyNodes := [2, 1], mParentJoint := [0], mMass := 1\<rparr>,
         1 := nullBody\<lparr>mParentBodyNode := Some 0, mParentJoint := [1], mMass := 1\<rparr>,
         2 := nullBody\<lparr>mParentBodyNode := Some 0, mChildBodyNodes := [3],
                        mParentJoint := [2], mMass := 1\<rparr>,
         3 := nullBody\<lparr>mParentBodyNode := Some 2, mParentJoint := [3], mMass := 1\<rparr>),
      softBodies = (\<lambda>b. \<lparr>mKv = 0, mKe = 0, mPointMasses = []\<rparr>),
      pointMasses = (\<lambda>p. \<lparr>pmGenCoords = (0, 0, 0), mConnectedPointMasses = [],
                          pmConstraintImpulses = (0, 0, 0)\<rparr>),
      genCoords = (\<lambda>a. \<lparr>gcPos = 0, gcVel = 0, gcAcc = 0, gcForce = 0, gcSkelIndex = 0\<rparr>),
      priv = ()\<rparr>"

definition branchTree :: bodytree where
  "branchTree = BodyTree 0 [BodyTree 2 [BodyTree 3 []], BodyTree 1 []]"

definition branchSkeleton :: "unit skeleton" where
  "branchSkeleton = chainSkeleton\<lparr>mBodyNodes := [0, 3, 1, 2], mGenCoords := [],
     objects := branchObjects\<rparr>"

text \<open>
  Collaborators whose aggregation writes the mass of the body (its reciprocal for the
  inverse) into the rows of the body in the given column: the rows of its joint and of
  its point masses.
\<close>

definition rowOps :: "unit contract" where
  "rowOps =
     \<lparr>bodyOp = (\<lambda>c b ob. (genCoords ob, priv ob)),
      matOp = (\<lambda>c b ob M. (priv ob, case c of
          AggregateMassMatrix j \<Rightarrow>
            (\<lambda>r k. if int k = j \<and> (inJointRows ob b r \<or> inPointMassRows ob b r)
                    then mMass (bodies ob b) else M r k)
        | AggregateInvMassMatrix j \<Rightarrow>
            (\<lambda>r k. if int k = j \<and> (inJointRows ob b r \<or> inPointMassRows ob b r)
                    then 1 / mMass (bodies ob b) else M r k)
        | _ \<Rightarrow> M)),
      vecOp = (\<lambda>c b ob v. (priv ob, v)),
      initOp = (\<lambda>b i gl ob. (gl @ mParentJoint (bodies ob b), genCoords ob, priv ob))\<rparr>"

text \<open>
  A soft root with one joint coordinate (row 0) and one point mass, followed by a chain
  of three rigid bodies with one joint coordinate each. In \<open>interleavedSkeleton\<close> the
  point mass has rows 1 to 3, directly after the joint of its body, and the rigid joints
  have rows 4, 5 and 6.
\<close>

definition interleavedObjects :: "unit objects" where
  "interleavedObjects =
     \<lparr>bodies = (\<lambda>b. nullBody)
        (0 := nullBody\<lparr>mChildBodyNodes := [1], mParentJoint := [0], mMass := 7\<rparr>,
         1 := nullBody\<lparr>mParentBodyNode := Some 0, mChildBodyNodes := [2],
                        mParentJoint := [4], mMass := 2\<rparr>,
         2 := nullBody\<lparr>mParentBodyNode := Some 1, mChildBodyNodes := [3],
                        mParentJoint := [5], mMass := 2\<rparr>,
         3 := nullBody\<lparr>mParentBodyNode := Some 2, mParentJoint := [6], mMass := 2\<rparr>),
      softBodies = (\<lambda>b. \<lparr>mKv = 0, mKe = 0, mPointMasses = []\<rparr>)
        (0 := \<lparr>mKv = 10, mKe = 5, mPointMasses = [0]\<rparr>),
      pointMasses = (\<lambda>p. \<lparr>pmGenCoords = (1, 2, 3), mConnectedPointMasses = [],
                          pmConstraintImpulses = (0, 0, 0)\<rparr>),
      genCoords = (\<lambda>a. \<lparr>gcPos = 0, gcVel = 0, gcAcc = 0, gcForce = 0, gcSkelIndex = int a\<rparr>),
      priv = ()\<rparr>"

definition interleavedSkeleton :: "unit skeleton" where
  "interleavedSkeleton = chainSkeleton\<lparr>mBodyNodes := [0, 1, 2, 3], mSoftBodyNodes := [0],
     mGenCoords := [0, 1, 2, 3, 4, 5, 6],
     mM := matrixZero 7 7, mAugM := matrixZero 7 7, mInvM := matrixZero 7 7,
     mInvAugM := matrixZero 7 7, objects := interleavedObjects\<rparr>"

text \<open>
  In \<open>trailingSkeleton\<close> the soft root (row 0) has a single rigid child (row 1) and the
  point mass has rows 2 to 4, after the joint coordinates of all bodies.
\<close>

definition trailingObjects :: "unit objects" where
  "trailingObjects =
     \<lparr>bodies = (\<lambda>b. nullBody)
        (0 := nullBody\<lparr>mChildBodyNodes := [1], mParentJoint := [0], mMass := 7\<rparr>,
         1 := nullBody\<lparr>mParentBodyNode := Some 0, mParentJoint := [1], mMass := 2\<rparr>),
      softBodies = (\<lambda>b. \<lparr>mKv = 0, mKe = 0, mPointMasses = []\<rparr>)
        (0 := \<lparr>mKv = 10, mKe = 5, mPointMasses = [0]\<rparr>),
      pointMasses = (\<lambda>p. \<lparr>pmGenCoords = (2, 3, 4), mConnectedPointMasses = [],
                          pmConstraintImpulses = (0, 0, 0)\<rparr>),
      genCoords = (\<lambda>a. \<lparr>gcPos = 0, gcVel = 0, gcAcc = 0, gcForce = 0, gcSkelIndex = int a\<rparr>),
      priv = ()\<rparr>"

definition trailingSkeleton :: "unit skeleton" where
  "trailingSkeleton = chainSkeleton\<lparr>mBodyNodes := [0, 1], mSoftBodyNodes := [0],
     mGenCoords := [0, 1, 2, 3, 4],
     mM := matrixZero 5 5, mAugM := matrixZero 5 5, mInvM := matrixZero 5 5,
     mInvAugM := matrixZero 5 5, objects := trailingObjects\<rparr>"

section \<open>Properties\<close>

subsection \<open>Auxiliary facts\<close>

lemma fold_preserves: "(\<And>x t. g (f x t) = g t) \<Longrightarrow> g (fold f xs s) = g s"
  by (induction xs arbitrary: s) simp_all

lemma callBody_members [simp]:
  "mBodyNodes (callBody ops c b s) = mBodyNodes s"
  "mSoftBodyNodes (callBody ops c b s) = mSoftBodyNodes s"
  "mGenCoords (callBody ops c b s) = mGenCoords s"
  "mTimeStep (callBody ops c b s) = mTimeStep s"
  "dirtyFlags (callBody ops c b s) = dirtyFlags s"
  "calls (callBody ops c b s) = calls s @ [(c, b)]"
  "bodies (objects (callBody ops c b s)) = bodies (objects s)"
  "softBodies (objects (callBody ops c b s)) = softBodies (objects s)"
  "pointMasses (objects (callBody ops c b s)) = pointMasses (objects s)"
  by (simp_all add: callBody_def dirtyFlags_def split_def Let_def)

lemma calls_fold_callBody:
  "calls (fold (callBody ops c) bs s) = calls s @ map (Pair c) bs"
  by (induction bs arbitrary: s) simp_all

lemma calls_fold_callBody2:
  "calls (fold (\<lambda>b t. callBody ops c2 b (callBody ops c1 b t)) bs s)
     = calls s @ concat (map (\<lambda>b. [(c1, b), (c2, b)]) bs)"
  by (induction bs arbitrary: s) simp_all

lemma markJacobianDirty_members [simp]:
  "mBodyNodes (markJacobianDirty b s) = mBodyNodes s"
  "calls (markJacobianDirty b s) = calls s"
  "dirtyFlags (markJacobianDirty b s) = dirtyFlags s"
  by (simp_all add: markJacobianDirty_def dirtyFlags_def)

lemma raiseDirtyFlags_members [simp]:
  "mBodyNodes (raiseDirtyFlags s) = mBodyNodes s"
  "calls (raiseDirtyFlags s) = calls s"
  "dirtyFlags (raiseDirtyFlags s) = replicate 9 True"
  by (simp_all add: raiseDirtyFlags_def dirtyFlags_def numeral_eq_Suc)

lemma calls_computeForwardKinematics:
  "calls (computeForwardKinematics ops ut uv ua s) =
     calls s
     @ (if ut then map (Pair UpdateTransform) (mBodyNodes s) else [])
     @ (if uv then concat (map (\<lambda>b. [(UpdateVelocity, b), (UpdatePartialAcceleration, b)])
                             (mBodyNodes s)) else [])
     @ (if ua then map (Pair UpdateAcceleration) (mBodyNodes s) else [])"
  unfolding computeForwardKinematics_def Let_def
  by (simp add: fold_preserves [where g = calls] fold_preserves [where g = mBodyNodes]
      calls_fold_callBody calls_fold_callBody2)

lemma dirtyFlags_computeForwardKinematics:
  "dirtyFlags (computeForwardKinematics ops ut uv ua s) = replicate 9 True"
  unfolding computeForwardKinematics_def Let_def
  by (simp add: fold_preserves [where g = dirtyFlags])

lemma GenCoordSystem_set_members [simp]:
  "mBodyNodes (GenCoordSystem_setPositions v s) = mBodyNodes s"
  "mBodyNodes (GenCoordSystem_setVelocities v s) = mBodyNodes s"
  "mBodyNodes (GenCoordSystem_setAccelerations v s) = mBodyNodes s"
  "mBodyNodes (setGenForces v s) = mBodyNodes s"
  "calls (GenCoordSystem_setPositions v s) = calls s"
  "calls (GenCoordSystem_setVelocities v s) = calls s"
  "calls (GenCoordSystem_setAccelerations v s) = calls s"
  "calls (setGenForces v s) = calls s"
  "dirtyFlags (GenCoordSystem_setPositions v s) = dirtyFlags s"
  "dirtyFlags (GenCoordSystem_setVelocities v s) = dirtyFlags s"
  "dirtyFlags (GenCoordSystem_setAccelerations v s) = dirtyFlags s"
  "dirtyFlags (setGenForces v s) = dirtyFlags s"
  by (simp_all add: GenCoordSystem_setPositions_def GenCoordSystem_setVelocities_def
      GenCoordSystem_setAccelerations_def setGenForces_def dirtyFlags_def)

lemma dirtyFlags_integrate:
  "dirtyFlags (integrateConfigs ops dt s) = dirtyFlags s"
  "dirtyFlags (integrateGenVels ops dt s) = dirtyFlags s"
  unfolding integrateConfigs_def integrateGenVels_def Let_def
  by (simp_all add: fold_preserves [where g = dirtyFlags])

lemma frame_refl [simp]: "frame P s s"
  by (simp add: frame_def)

lemma frame_trans: "frame P s t \<Longrightarrow> frame P t u \<Longrightarrow> frame P s u"
  unfolding frame_def by (elim conjE exE) (simp add: dirtyFlags_def)

lemma frame_callBody: "P c \<Longrightarrow> frame P s (callBody ops c b s)"
  by (simp add: frame_def callBody_def split_def Let_def dirtyFlags_def)

lemma frame_fold: "(\<And>x t. frame P t (f x t)) \<Longrightarrow> frame P s (fold f xs s)"
proof (induction xs arbitrary: s)
  case Nil
  show ?case by simp
next
  case (Cons x xs)
  have "frame P s (f x s)" by (rule Cons.prems)
  moreover have "frame P (f x s) (fold f xs (f x s))" by (rule Cons.IH) (rule Cons.prems)
  ultimately show ?case by (simp add: frame_trans)
qed

lemma frame_setters:
  "frame P s (GenCoordSystem_setPositions v s)"
  "frame P s (GenCoordSystem_setVelocities v s)"
  "frame P s (GenCoordSystem_setAccelerations v s)"
  "frame P s (setGenForces v s)"
  by (simp_all add: frame_def GenCoordSystem_setPositions_def GenCoordSystem_setVelocities_def
      GenCoordSystem_setAccelerations_def setGenForces_def dirtyFlags_def)

lemma frame_aggregate:
  "P (AggregateMassMatrix j) \<Longrightarrow> frame P s (aggregateMassMatrix ops j b s)"
  "P (AggregateAugMassMatrix j (mTimeStep s)) \<Longrightarrow> frame P s (aggregateAugMassMatrix ops j b s)"
  "P (AggregateInvMassMatrix j) \<Longrightarrow> frame P s (aggregateInvMassMatrix ops j b s)"
  "P (AggregateInvAugMassMatrix j (mTimeStep s)) \<Longrightarrow> frame P s (aggregateInvAugMassMatrix ops j b s)"
  by (simp_all add: frame_def aggregateMassMatrix_def aggregateAugMassMatrix_def
      aggregateInvMassMatrix_def aggregateInvAugMassMatrix_def callMat_def split_def Let_def
      dirtyFlags_def)

lemma frame_aggregateMassMatrixLoop:
  "P (AggregateMassMatrix j) \<Longrightarrow> frame P s (aggregateMassMatrixLoop ops j bs s)"
proof (induction bs arbitrary: s)
  case Nil
  show ?case by simp
next
  case (Cons b bs)
  have 1: "frame P s (aggregateMassMatrix ops j b s)"
    by (rule frame_aggregate) (rule Cons.prems)
  have 2: "frame P (aggregateMassMatrix ops j b s)
             (aggregateMassMatrixLoop ops j bs (aggregateMassMatrix ops j b s))"
    by (rule Cons.IH) (rule Cons.prems)
  from 1 frame_trans [OF 1 2] show ?case by (simp add: Let_def)
qed

lemma frame_aggregateAugMassMatrixLoop:
  "(\<And>dt. P (AggregateAugMassMatrix j dt)) \<Longrightarrow> frame P s (aggregateAugMassMatrixLoop ops j bs s)"
proof (induction bs arbitrary: s)
  case Nil
  show ?case by simp
next
  case (Cons b bs)
  have 1: "frame P s (aggregateAugMassMatrix ops j b s)"
    by (rule frame_aggregate) (rule Cons.prems)
  have 2: "frame P (aggregateAugMassMatrix ops j b s)
             (aggregateAugMassMatrixLoop ops j bs (aggregateAugMassMatrix ops j b s))"
    by (rule Cons.IH) (rule Cons.prems)
  from 1 frame_trans [OF 1 2] show ?case by (simp add: Let_def)
qed

lemma frame_aggregateInvMassMatrixLoop:
  "P (AggregateInvMassMatrix j) \<Longrightarrow> frame P s (aggregateInvMassMatrixLoop ops j bs s)"
proof (induction bs arbitrary: s)
  case Nil
  show ?case by simp
next
  case (Cons b bs)
  have 1: "frame P s (aggregateInvMassMatrix ops j b s)"
    by (rule frame_aggregate) (rule Cons.prems)
  have 2: "frame P (aggregateInvMassMatrix ops j b s)
             (aggregateInvMassMatrixLoop ops j bs (aggregateInvMassMatrix ops j b s))"
    by (rule Cons.IH) (rule Cons.prems)
  from 1 frame_trans [OF 1 2] show ?case by (simp add: Let_def)
qed

lemma frame_aggregateInvAugMassMatrixLoop:
  "(\<And>dt. P (AggregateInvAugMassMatrix j dt))
     \<Longrightarrow> frame P s (aggregateInvAugMassMatrixLoop ops j bs s)"
proof (induction bs arbitrary: s)
  case Nil
  show ?case by simp
next
  case (Cons b bs)
  have 1: "frame P s (aggregateInvAugMassMatrix ops j b s)"
    by (rule frame_aggregate) (rule Cons.prems)
  have 2: "frame P (aggregateInvAugMassMatrix ops j b s)
             (aggregateInvAugMassMatrixLoop ops j bs (aggregateInvAugMassMatrix ops j b s))"
    by (rule Cons.IH) (rule Cons.prems)
  from 1 frame_trans [OF 1 2] show ?case by (simp add: Let_def)
qed

lemma frame_massMatrixColumn:
  assumes "P UpdateMassMatrix" and "\<And>k. P (AggregateMassMatrix k)"
  shows "frame P (snd es) (snd (massMatrixColumn ops j es))"
proof -
  let ?s1 = "GenCoordSystem_setAccelerations ((fst es)[j := 1]) (snd es)"
  let ?s2 = "fold (callBody ops UpdateMassMatrix) (mBodyNodes ?s1) ?s1"
  have 1: "frame P (snd es) ?s1" by (rule frame_setters)
  have 2: "frame P ?s1 ?s2" by (rule frame_fold) (rule frame_callBody, rule assms)
  have 3: "frame P ?s2 (aggregateMassMatrixLoop ops (int j) bs ?s2)" for bs
    by (rule frame_aggregateMassMatrixLoop) (rule assms)
  show ?thesis
    unfolding massMatrixColumn_def Let_def snd_conv
    by (rule frame_trans [OF 1 frame_trans [OF 2 3]])
qed

lemma frame_augMassMatrixColumn:
  assumes "P UpdateMassMatrix" and "\<And>k dt. P (AggregateAugMassMatrix k dt)"
  shows "frame P (snd es) (snd (augMassMatrixColumn ops j es))"
proof -
  let ?s1 = "GenCoordSystem_setAccelerations ((fst es)[j := 1]) (snd es)"
  let ?s2 = "fold (callBody ops UpdateMassMatrix) (mBodyNodes ?s1) ?s1"
  have 1: "frame P (snd es) ?s1" by (rule frame_setters)
  have 2: "frame P ?s1 ?s2" by (rule frame_fold) (rule frame_callBody, rule assms)
  have 3: "frame P ?s2 (aggregateAugMassMatrixLoop ops (int j) bs ?s2)" for bs
    by (rule frame_aggregateAugMassMatrixLoop) (rule assms)
  show ?thesis
    unfolding augMassMatrixColumn_def Let_def snd_conv
    by (rule frame_trans [OF 1 frame_trans [OF 2 3]])
qed

lemma frame_invMassMatrixColumn:
  assumes "P UpdateInvMassMatrix" and "\<And>k. P (AggregateInvMassMatrix k)"
  shows "frame P (snd es) (snd (invMassMatrixColumn ops j es))"
proof -
  let ?s1 = "setGenForces ((fst es)[j := 1]) (snd es)"
  let ?s2 = "fold (callBody ops UpdateInvMassMatrix) (rev (mBodyNodes ?s1)) ?s1"
  have 1: "frame P (snd es) ?s1" by (rule frame_setters)
  have 2: "frame P ?s1 ?s2" by (rule frame_fold) (rule frame_callBody, rule assms)
  have 3: "frame P ?s2 (aggregateInvMassMatrixLoop ops (int j) bs ?s2)" for bs
    by (rule frame_aggregateInvMassMatrixLoop) (rule assms)
  show ?thesis
    unfolding invMassMatrixColumn_def Let_def snd_conv
    by (rule frame_trans [OF 1 frame_trans [OF 2 3]])
qed

lemma frame_invAugMassMatrixColumn:
  assumes "P UpdateInvAugMassMatrix" and "\<And>k dt. P (AggregateInvAugMassMatrix k dt)"
  shows "frame P (snd es) (snd (invAugMassMatrixColumn ops j es))"
proof -
  let ?s1 = "setGenForces ((fst es)[j := 1]) (snd es)"
  let ?s2 = "fold (callBody ops UpdateInvAugMassMatrix) (rev (mBodyNodes ?s1)) ?s1"
  have 1: "frame P (snd es) ?s1" by (rule frame_setters)
  have 2: "frame P ?s1 ?s2" by (rule frame_fold) (rule frame_callBody, rule assms)
  have 3: "frame P ?s2 (aggregateInvAugMassMatrixLoop ops (int j) bs ?s2)" for bs
    by (rule frame_aggregateInvAugMassMatrixLoop) (rule assms)
  show ?thesis
    unfolding invAugMassMatrixColumn_def Let_def snd_conv
    by (rule frame_trans [OF 1 frame_trans [OF 2 3]])
qed

lemma frame_fold_columns:
  "(\<And>x es. frame P (snd es) (snd (f x es))) \<Longrightarrow> frame P (snd es) (snd (fold f xs es))"
proof (induction xs arbitrary: es)
  case Nil
  show ?case by simp
next
  case (Cons x xs)
  have "frame P (snd es) (snd (f x es))" by (rule Cons.prems)
  moreover have "frame P (snd (f x es)) (snd (fold f xs (f x es)))"
    by (rule Cons.IH) (rule Cons.prems)
  ultimately show ?case by (simp add: frame_trans)
qed

lemma symmetric_mirrorStrictlyUpper:
  "mrows M = n \<Longrightarrow> mcols M = n \<Longrightarrow> symmetric n (mirrorStrictlyUpper M)"
  by (auto simp add: symmetric_def mirrorStrictlyUpper_def)

lemma mM_computeForwardKinematics:
  "mM (computeForwardKinematics ops False False False s) = mM s"
  unfolding computeForwardKinematics_def Let_def
  by (simp add: fold_preserves [where g = mM] markJacobianDirty_def raiseDirtyFlags_def)

lemma mM_setAccelerations: "mM (setAccelerations ops v False s) = mM s"
  by (simp add: setAccelerations_def mM_computeForwardKinematics
      GenCoordSystem_setAccelerations_def)

lemma calls_fold_updateArtInertia:
  "calls (fold (\<lambda>b t. callBody ops (UpdateArtInertia (mTimeStep t)) b t) bs s)
     = calls s @ map (Pair (UpdateArtInertia (mTimeStep s))) bs"
  by (induction bs arbitrary: s) simp_all

lemma frame_calls:
  "frame P s t \<Longrightarrow> \<exists>l. calls t = calls s @ l \<and> list_all (\<lambda>ev. P (fst ev)) l"
  by (simp add: frame_def)

lemma frame_articulatedInertiaFlag:
  "frame P s t \<Longrightarrow> mIsArticulatedInertiaDirty t = mIsArticulatedInertiaDirty s"
  by (simp add: frame_def dirtyFlags_def)

lemma frame_invMassMatrixColumns:
  "frame (\<lambda>c. \<not> isUpdateArtInertia c) s (snd (fold (invMassMatrixColumn ops) js (e, s)))"
  using frame_fold_columns [where f = "invMassMatrixColumn ops" and es = "(e, s)"
      and P = "\<lambda>c. \<not> isUpdateArtInertia c" and xs = js]
  by (simp add: frame_invMassMatrixColumn)

lemma frame_invAugMassMatrixColumns:
  "frame (\<lambda>c. \<not> isUpdateArtInertia c) s (snd (fold (invAugMassMatrixColumn ops) js (e, s)))"
  using frame_fold_columns [where f = "invAugMassMatrixColumn ops" and es = "(e, s)"
      and P = "\<lambda>c. \<not> isUpdateArtInertia c" and xs = js]
  by (simp add: frame_invAugMassMatrixColumn)

lemma updateInvMassMatrix_articulatedInertia:
  assumes "updateInvMassMatrix ops s = Inr s'"
  shows "\<not> mIsArticulatedInertiaDirty s'
    \<and> (\<exists>l. calls s' = calls s
             @ (if mIsArticulatedInertiaDirty s
                then map (Pair (UpdateArtInertia (mTimeStep s))) (rev (mBodyNodes s)) else [])
             @ l
           \<and> list_all (\<lambda>ev. \<not> isUpdateArtInertia (fst ev)) l)"
proof -
  define s1 where "s1 = (if mIsArticulatedInertiaDirty s
       then (fold (\<lambda>b t. callBody ops (UpdateArtInertia (mTimeStep t)) b t)
               (rev (mBodyNodes s)) s)\<lparr>mIsArticulatedInertiaDirty := False\<rparr>
       else s)"
  define s2 where
    "s2 = snd (fold (invMassMatrixColumn ops) [0..<getDof s1] (replicate (getDof s1) 0, s1))"
  have s': "s' = (setGenForces (getGenForces s) (s2\<lparr>mInvM := mirrorStrictlyLower (mInvM s2)\<rparr>))
               \<lparr>mIsInvMassMatrixDirty := False\<rparr>"
    using assms
    by (simp add: updateInvMassMatrix_def Let_def s1_def s2_def split: if_splits)
  have flag1: "\<not> mIsArticulatedInertiaDirty s1"
    by (simp add: s1_def)
  have calls1: "calls s1 = calls s
      @ (if mIsArticulatedInertiaDirty s
         then map (Pair (UpdateArtInertia (mTimeStep s))) (rev (mBodyNodes s)) else [])"
    by (simp add: s1_def calls_fold_updateArtInertia)
  have fr: "frame (\<lambda>c. \<not> isUpdateArtInertia c) s1 s2"
    unfolding s2_def by (rule frame_invMassMatrixColumns)
  from frame_calls [OF fr] obtain l where
    l: "calls s2 = calls s1 @ l" "list_all (\<lambda>ev. \<not> isUpdateArtInertia (fst ev)) l"
    by blast
  have "\<not> mIsArticulatedInertiaDirty s'"
    using flag1 frame_articulatedInertiaFlag [OF fr] by (simp add: s' setGenForces_def)
  moreover have "calls s' = calls s
      @ (if mIsArticulatedInertiaDirty s
         then map (Pair (UpdateArtInertia (mTimeStep s))) (rev (mBodyNodes s)) else [])
      @ l"
    using l(1) calls1 by (simp add: s')
  ultimately show ?thesis using l(2) by blast
qed

lemma updateInvAugMassMatrix_articulatedInertia:
  assumes "updateInvAugMassMatrix ops s = Inr s'"
  shows "mIsArticulatedInertiaDirty s' = mIsArticulatedInertiaDirty s
    \<and> (\<exists>l. calls s' = calls s @ l \<and> list_all (\<lambda>ev. \<not> isUpdateArtInertia (fst ev)) l)"
proof -
  define s2 where
    "s2 = snd (fold (invAugMassMatrixColumn ops) [0..<getDof s] (replicate (getDof s) 0, s))"
  have s': "s' = (setGenForces (getGenForces s)
                    (s2\<lparr>mInvAugM := mirrorStrictlyLower (mInvAugM s2)\<rparr>))
               \<lparr>mIsInvAugMassMatrixDirty := False\<rparr>"
    using assms
    by (simp add: updateInvAugMassMatrix_def Let_def s2_def split: if_splits)
  have fr: "frame (\<lambda>c. \<not> isUpdateArtInertia c) s s2"
    unfolding s2_def by (rule frame_invAugMassMatrixColumns)
  from frame_calls [OF fr] obtain l where
    l: "calls s2 = calls s @ l" "list_all (\<lambda>ev. \<not> isUpdateArtInertia (fst ev)) l"
    by blast
  have "mIsArticulatedInertiaDirty s' = mIsArticulatedInertiaDirty s"
    using frame_articulatedInertiaFlag [OF fr] by (simp add: s' setGenForces_def)
  moreover have "calls s' = calls s @ l"
    using l(1) by (simp add: s')
  ultimately show ?thesis using l(2) by blast
qed

lemma fold_commute_update:
  "(\<And>x t. f x (u t) = u (f x t)) \<Longrightarrow> fold f xs (u s) = u (fold f xs s)"
  by (induction xs arbitrary: s) simp_all

lemma flag_commute_steps:
  "callBody ops c b (t\<lparr>mIsArticulatedInertiaDirty := f\<rparr>)
     = (callBody ops c b t)\<lparr>mIsArticulatedInertiaDirty := f\<rparr>"
  "setGenForces v (t\<lparr>mIsArticulatedInertiaDirty := f\<rparr>)
     = (setGenForces v t)\<lparr>mIsArticulatedInertiaDirty := f\<rparr>"
  "aggregateInvAugMassMatrix ops j b (t\<lparr>mIsArticulatedInertiaDirty := f\<rparr>)
     = (aggregateInvAugMassMatrix ops j b t)\<lparr>mIsArticulatedInertiaDirty := f\<rparr>"
  by (simp_all add: callBody_def setGenForces_def aggregateInvAugMassMatrix_def callMat_def
      split_def Let_def)

lemma flag_commute_loop:
  "aggregateInvAugMassMatrixLoop ops j bs (t\<lparr>mIsArticulatedInertiaDirty := f\<rparr>)
     = (aggregateInvAugMassMatrixLoop ops j bs t)\<lparr>mIsArticulatedInertiaDirty := f\<rparr>"
proof (induction bs arbitrary: t)
  case Nil
  show ?case by simp
next
  case (Cons b bs)
  show ?case
    by (simp add: flag_commute_steps Cons.IH Let_def jointDof_def jointIndexInSkeleton_def)
qed

lemma flag_commute_column:
  "invAugMassMatrixColumn ops j (e, t\<lparr>mIsArticulatedInertiaDirty := f\<rparr>)
     = map_prod id (\<lambda>t. t\<lparr>mIsArticulatedInertiaDirty := f\<rparr>) (invAugMassMatrixColumn ops j (e, t))"
proof -
  have 1: "fold (callBody ops c) bs (t\<lparr>mIsArticulatedInertiaDirty := f\<rparr>)
     = (fold (callBody ops c) bs t)\<lparr>mIsArticulatedInertiaDirty := f\<rparr>" for c bs t
    by (rule fold_commute_update) (rule flag_commute_steps)
  show ?thesis
    by (simp add: invAugMassMatrixColumn_def Let_def flag_commute_steps 1 flag_commute_loop
        fold_preserves [where g = mBodyNodes])
qed

lemma flag_commute_columns:
  "fold (invAugMassMatrixColumn ops) js (e, t\<lparr>mIsArticulatedInertiaDirty := f\<rparr>)
     = map_prod id (\<lambda>t. t\<lparr>mIsArticulatedInertiaDirty := f\<rparr>)
         (fold (invAugMassMatrixColumn ops) js (e, t))"
proof (induction js arbitrary: e t)
  case Nil
  show ?case by simp
next
  case (Cons j js)
  obtain e' t' where col: "invAugMassMatrixColumn ops j (e, t) = (e', t')"
    by (cases "invAugMassMatrixColumn ops j (e, t)")
  show ?case
    by (simp add: flag_commute_column col Cons.IH)
qed

lemma updateInvAugMassMatrix_ignores_flag:
  "updateInvAugMassMatrix ops (s\<lparr>mIsArticulatedInertiaDirty := f\<rparr>)
     = map_sum id (\<lambda>t. t\<lparr>mIsArticulatedInertiaDirty := f\<rparr>) (updateInvAugMassMatrix ops s)"
  by (simp add: updateInvAugMassMatrix_def Let_def getDof_def getGenForces_def
      flag_commute_columns setGenForces_def)

lemma updateMassMatrix_dirtyFlags:
  "updateMassMatrix ops s = Inr s' \<Longrightarrow>
     dirtyFlags s' = [True, False, True, True, True, True, True, True, True]"
  by (auto simp add: updateMassMatrix_def Let_def setAccelerations_def dirtyFlags_def
      computeForwardKinematics_def raiseDirtyFlags_def
      fold_preserves [where g = mIsArticulatedInertiaDirty]
      fold_preserves [where g = mIsAugMassMatrixDirty]
      fold_preserves [where g = mIsInvMassMatrixDirty]
      fold_preserves [where g = mIsInvAugMassMatrixDirty]
      fold_preserves [where g = mIsCoriolisVectorDirty]
      fold_preserves [where g = mIsGravityForceVectorDirty]
      fold_preserves [where g = mIsCombinedVectorDirty]
      fold_preserves [where g = mIsExternalForceVectorDirty]
      markJacobianDirty_def split: if_splits)

lemma updateAugMassMatrix_dirtyFlags:
  assumes "updateAugMassMatrix ops s = Inr s'"
  shows "dirtyFlags s' = (dirtyFlags s)[2 := False]"
proof -
  define s1 where "s1 = s\<lparr>mAugM := matrixSetZero (mAugM s)\<rparr>"
  define s2 where
    "s2 = snd (fold (augMassMatrixColumn ops) [0..<getDof s1] (replicate (getDof s1) 0, s1))"
  have s': "s' = (GenCoordSystem_setAccelerations (getGenAccs s1)
                    (s2\<lparr>mAugM := mirrorStrictlyUpper (mAugM s2)\<rparr>))
               \<lparr>mIsAugMassMatrixDirty := False\<rparr>"
    using assms
    by (simp add: updateAugMassMatrix_def Let_def s1_def s2_def split: if_splits)
  have "frame (\<lambda>c. True) (snd (replicate (getDof s1) (0::real), s1)) s2"
    unfolding s2_def by (rule frame_fold_columns) (rule frame_augMassMatrixColumn, simp_all)
  then have "dirtyFlags s2 = dirtyFlags s"
    by (simp add: frame_def s1_def dirtyFlags_def)
  then show ?thesis
    by (simp add: s' dirtyFlags_def GenCoordSystem_setAccelerations_def)
qed

lemma updateMassMatrix_returns:
  "0 < getDof s \<Longrightarrow> mrows (mM s) = getDof s \<Longrightarrow> mcols (mM s) = getDof s
     \<Longrightarrow> \<exists>s'. updateMassMatrix ops s = Inr s'"
  by (simp add: updateMassMatrix_def Let_def)

lemma updateAugMassMatrix_returns:
  "0 < getDof s \<Longrightarrow> mrows (mAugM s) = getDof s \<Longrightarrow> mcols (mAugM s) = getDof s
     \<Longrightarrow> \<exists>s'. updateAugMassMatrix ops s = Inr s'"
  by (simp add: updateAugMassMatrix_def Let_def)

lemma updateInvMassMatrix_returns:
  "0 < getDof s \<Longrightarrow> mrows (mInvM s) = getDof s \<Longrightarrow> mcols (mInvM s) = getDof s
     \<Longrightarrow> \<exists>s'. updateInvMassMatrix ops s = Inr s'"
  by (simp add: updateInvMassMatrix_def Let_def)

lemma updateInvAugMassMatrix_returns:
  "0 < getDof s \<Longrightarrow> mrows (mInvAugM s) = getDof s \<Longrightarrow> mcols (mInvAugM s) = getDof s
     \<Longrightarrow> \<exists>s'. updateInvAugMassMatrix ops s = Inr s'"
  by (simp add: updateInvAugMassMatrix_def Let_def)

lemma chainSkeleton_sizes [simp]:
  "getDof chainSkeleton = 2"
  "mrows (mM chainSkeleton) = 2" "mcols (mM chainSkeleton) = 2"
  "mrows (mAugM chainSkeleton) = 2" "mcols (mAugM chainSkeleton) = 2"
  "mrows (mInvM chainSkeleton) = 2" "mcols (mInvM chainSkeleton) = 2"
  "mrows (mInvAugM chainSkeleton) = 2" "mcols (mInvAugM chainSkeleton) = 2"
  "mBodyNodes chainSkeleton = [0, 1]"
  "dirtyFlags chainSkeleton = replicate 9 False"
  "calls chainSkeleton = []"
  "mTimeStep chainSkeleton = 1 / 1000"
  by (simp_all add: chainSkeleton_def getDof_def matrixZero_def dirtyFlags_def numeral_eq_Suc)

lemma add3_assoc: "add3 (add3 a b) c = add3 a (add3 b c)"
  by (cases a, cases b, cases c) simp

lemma add3_zero3 [simp]: "add3 a zero3 = a"
  by (cases a) (simp add: zero3_def)

lemma fold_add3:
  "fold (\<lambda>n F. add3 F (g n)) ns F0 = add3 F0 (sum3 (map g ns))"
proof (induction ns arbitrary: F0)
  case Nil
  show ?case by (simp add: sum3_def)
next
  case (Cons n ns)
  have "sum3 (map g (n # ns)) = add3 (g n) (sum3 (map g ns))"
    by (simp add: sum3_def)
  then show ?case by (simp add: Cons.IH add3_assoc)
qed

lemma pointMassFext_springForce:
  "pointMassFext s (mKv (softBodies (objects s) sb)) (mKe (softBodies (objects s) sb)) p
     = springForce s sb p"
  by (simp add: pointMassFext_def springForce_def Let_def fold_add3)

lemma assignSegments_append:
  "assignSegments (xs @ ys) v =
     (case assignSegments xs v of Inl err \<Rightarrow> Inl err | Inr v' \<Rightarrow> assignSegments ys v')"
  by (induction xs arbitrary: v) (simp_all split: sum.splits)

lemma assignSegment3_Inr:
  "0 \<le> i \<Longrightarrow> i + 3 \<le> int (vsize v) \<Longrightarrow>
     \<exists>v'. assignSegment3 i F v = Inr v' \<and> vsize v' = vsize v \<and> segment3 v' i = F
       \<and> (\<forall>x. \<not> (i \<le> int x \<and> int x < i + 3) \<longrightarrow> vcoeff v' x = vcoeff v x)"
  by (cases F) (auto simp add: assignSegment3_def segment3_def)

lemma assignSegments_keeps:
  assumes "\<forall>w \<in> set ws. 0 \<le> fst w \<and> fst w + 3 \<le> int (vsize v)"
  shows "\<exists>v'. assignSegments ws v = Inr v' \<and> vsize v' = vsize v
           \<and> (\<forall>x. (\<forall>w \<in> set ws. \<not> (fst w \<le> int x \<and> int x < fst w + 3))
                  \<longrightarrow> vcoeff v' x = vcoeff v x)"
  using assms
proof (induction ws arbitrary: v)
  case Nil
  show ?case by simp
next
  case (Cons w ws)
  from Cons.prems have "0 \<le> fst w" "fst w + 3 \<le> int (vsize v)" by simp_all
  from assignSegment3_Inr [OF this, of "snd w"] obtain v1 where
    v1: "assignSegment3 (fst w) (snd w) v = Inr v1" "vsize v1 = vsize v"
      "\<forall>x. \<not> (fst w \<le> int x \<and> int x < fst w + 3) \<longrightarrow> vcoeff v1 x = vcoeff v x"
    by blast
  have "\<forall>u \<in> set ws. 0 \<le> fst u \<and> fst u + 3 \<le> int (vsize v1)"
    using Cons.prems v1(2) by simp
  from Cons.IH [OF this] obtain v' where
    v': "assignSegments ws v1 = Inr v'" "vsize v' = vsize v1"
      "\<forall>x. (\<forall>u \<in> set ws. \<not> (fst u \<le> int x \<and> int x < fst u + 3))
           \<longrightarrow> vcoeff v' x = vcoeff v1 x"
    by blast
  show ?case
    using v1 v' by (intro exI [of _ v']) simp
qed

lemma segment3_cong:
  "0 \<le> i \<Longrightarrow> (\<forall>x. i \<le> int x \<and> int x < i + 3 \<longrightarrow> vcoeff v' x = vcoeff v x)
     \<Longrightarrow> segment3 v' i = segment3 v i"
  by (simp add: segment3_def)

lemma assignSegments_blocks:
  assumes "\<forall>w \<in> set ws. 0 \<le> fst w \<and> fst w + 3 \<le> int (vsize v)"
    and "\<forall>n<length ws. \<forall>m<n. 3 \<le> \<bar>fst (ws ! n) - fst (ws ! m)\<bar>"
  shows "\<exists>v'. assignSegments ws v = Inr v' \<and> vsize v' = vsize v
           \<and> (\<forall>n<length ws. segment3 v' (fst (ws ! n)) = snd (ws ! n))"
  using assms
proof (induction ws arbitrary: v)
  case Nil
  show ?case by simp
next
  case (Cons w ws)
  from Cons.prems(1) have w: "0 \<le> fst w" "fst w + 3 \<le> int (vsize v)" by simp_all
  from assignSegment3_Inr [OF this, of "snd w"] obtain v1 where
    v1: "assignSegment3 (fst w) (snd w) v = Inr v1" "vsize v1 = vsize v"
      "segment3 v1 (fst w) = snd w"
    by blast
  have range1: "\<forall>u \<in> set ws. 0 \<le> fst u \<and> fst u + 3 \<le> int (vsize v1)"
    using Cons.prems(1) v1(2) by simp
  have disj1: "\<forall>n<length ws. \<forall>m<n. 3 \<le> \<bar>fst (ws ! n) - fst (ws ! m)\<bar>"
  proof (intro allI impI)
    fix n m assume "n < length ws" "m < n"
    then have "Suc n < length (w # ws)" "Suc m < Suc n" by simp_all
    from Cons.prems(2) [rule_format, OF this] show "3 \<le> \<bar>fst (ws ! n) - fst (ws ! m)\<bar>"
      by simp
  qed
  from Cons.IH [OF range1 disj1] obtain v' where
    v': "assignSegments ws v1 = Inr v'" "vsize v' = vsize v1"
      "\<forall>n<length ws. segment3 v' (fst (ws ! n)) = snd (ws ! n)"
    by blast
  from assignSegments_keeps [OF range1] v'(1) have keep:
    "\<forall>x. (\<forall>u \<in> set ws. \<not> (fst u \<le> int x \<and> int x < fst u + 3))
         \<longrightarrow> vcoeff v' x = vcoeff v1 x"
    by auto
  have far: "\<forall>u \<in> set ws. 3 \<le> \<bar>fst u - fst w\<bar>"
  proof
    fix u assume "u \<in> set ws"
    then obtain n where n: "n < length ws" "ws ! n = u" by (auto simp add: in_set_conv_nth)
    then have "Suc n < length (w # ws)" "0 < Suc n" by simp_all
    from Cons.prems(2) [rule_format, OF this] n(2) show "3 \<le> \<bar>fst u - fst w\<bar>" by simp
  qed
  have "segment3 v' (fst w) = segment3 v1 (fst w)"
  proof (rule segment3_cong [OF w(1)], intro allI impI)
    fix x assume x: "fst w \<le> int x \<and> int x < fst w + 3"
    have "\<forall>u \<in> set ws. \<not> (fst u \<le> int x \<and> int x < fst u + 3)"
    proof
      fix u assume "u \<in> set ws"
      with far have "3 \<le> \<bar>fst u - fst w\<bar>" by blast
      with x show "\<not> (fst u \<le> int x \<and> int x < fst u + 3)" by linarith
    qed
    with keep show "vcoeff v' x = vcoeff v1 x" by blast
  qed
  then have head: "segment3 v' (fst w) = snd w" using v1(3) by simp
  have "\<forall>n<length (w # ws). segment3 v' (fst ((w # ws) ! n)) = snd ((w # ws) ! n)"
  proof (intro allI impI)
    fix n assume "n < length (w # ws)"
    then show "segment3 v' (fst ((w # ws) ! n)) = snd ((w # ws) ! n)"
      using head v'(3) by (cases n) simp_all
  qed
  then show ?case
    using v1 v' by (intro exI [of _ v']) simp
qed

lemma mFext_update_reads [simp]:
  "pointMassIndexInSkeleton (s\<lparr>mFext := v\<rparr>) p = pointMassIndexInSkeleton s p"
  "pointMassFext (s\<lparr>mFext := v\<rparr>) kv ke p = pointMassFext s kv ke p"
  by (simp_all add: pointMassIndexInSkeleton_def pointMassFext_def pointMassConfigs_def
      pointMassGenVels_def)

lemma pointMassLoop_assignSegments:
  "pointMassLoop kv ke pms s =
     map_sum id (\<lambda>v. s\<lparr>mFext := v\<rparr>)
       (assignSegments
          (map (\<lambda>p. (pointMassIndexInSkeleton s p, pointMassFext s kv ke p)) pms) (mFext s))"
proof (induction pms arbitrary: s)
  case Nil
  show ?case by simp
next
  case (Cons p pms)
  show ?case
    by (simp add: Cons.IH split: sum.splits)
qed

lemma softBodyLoop_assignSegments:
  "softBodyLoop sbs s =
     map_sum id (\<lambda>v. s\<lparr>mFext := v\<rparr>)
       (assignSegments
          (concat (map (\<lambda>sb. map (\<lambda>p. pointMassWrite s (sb, p))
                                (mPointMasses (softBodies (objects s) sb))) sbs))
          (mFext s))"
proof (induction sbs arbitrary: s)
  case Nil
  show ?case by simp
next
  case (Cons sb sbs)
  have w: "pointMassWrite (s\<lparr>mFext := v\<rparr>) = pointMassWrite s" for v
    by (simp add: pointMassWrite_def fun_eq_iff)
  show ?case
    by (simp add: pointMassLoop_assignSegments Cons.IH assignSegments_append w
        pointMassWrite_def split: sum.splits)
qed

lemma softBodyLoop_visits:
  "softBodyLoop (mSoftBodyNodes s) s =
     map_sum id (\<lambda>v. s\<lparr>mFext := v\<rparr>)
       (assignSegments (map (pointMassWrite s) (pointMassVisits s)) (mFext s))"
  by (simp add: softBodyLoop_assignSegments pointMassVisits_def map_concat comp_def)

lemma aggregateExternalForces_keeps:
  "mSoftBodyNodes (aggregateExternalForces ops b s) = mSoftBodyNodes s"
  "mTimeStep (aggregateExternalForces ops b s) = mTimeStep s"
  "vsize (mFext (aggregateExternalForces ops b s)) = vsize (mFext s)"
  "softBodies (objects (aggregateExternalForces ops b s)) = softBodies (objects s)"
  "pointMasses (objects (aggregateExternalForces ops b s)) = pointMasses (objects s)"
  "genCoords (objects (aggregateExternalForces ops b s)) = genCoords (objects s)"
  by (simp_all add: aggregateExternalForces_def callVec_def split_def Let_def)

lemma reads_cong:
  assumes "mSoftBodyNodes t = mSoftBodyNodes s" and "mTimeStep t = mTimeStep s"
    and "softBodies (objects t) = softBodies (objects s)"
    and "pointMasses (objects t) = pointMasses (objects s)"
    and "genCoords (objects t) = genCoords (objects s)"
  shows "pointMassVisits t = pointMassVisits s" and "pointMassWrite t = pointMassWrite s"
  using assms
  by (simp_all add: pointMassVisits_def pointMassWrite_def pointMassIndexInSkeleton_def
      pointMassFext_def pointMassConfigs_def pointMassGenVels_def fun_eq_iff)

lemma updateExternalForceVector_blocks:
  assumes size: "vsize (mFext s) = getDof s" and dof: "0 < getDof s"
    and range: "blocksInRange s" and disj: "blocksDisjoint s"
  shows "\<exists>s'. updateExternalForceVector ops s = Inr s'
           \<and> (\<forall>v \<in> set (pointMassVisits s).
                 segment3 (mFext s') (pointMassIndexInSkeleton s (snd v))
                   = springForce s (fst v) (snd v))"
proof -
  define s1 where "s1 = s\<lparr>mFext := vectorSetZero (mFext s)\<rparr>"
  define s2 where "s2 = fold (aggregateExternalForces ops) (rev (mBodyNodes s1)) s1"
  have keep: "mSoftBodyNodes s2 = mSoftBodyNodes s" "mTimeStep s2 = mTimeStep s"
    "vsize (mFext s2) = vsize (mFext s)"
    "softBodies (objects s2) = softBodies (objects s)"
    "pointMasses (objects s2) = pointMasses (objects s)"
    "genCoords (objects s2) = genCoords (objects s)"
    unfolding s2_def
    by (simp_all add: fold_preserves [where g = mSoftBodyNodes]
        fold_preserves [where g = mTimeStep]
        fold_preserves [where g = "\<lambda>s. vsize (mFext s)"]
        fold_preserves [where g = "\<lambda>s. softBodies (objects s)"]
        fold_preserves [where g = "\<lambda>s. pointMasses (objects s)"]
        fold_preserves [where g = "\<lambda>s. genCoords (objects s)"]
        aggregateExternalForces_keeps s1_def vectorSetZero_def)
  note same = reads_cong [OF keep(1,2,4,5,6)]
  let ?ws = "map (pointMassWrite s) (pointMassVisits s)"
  have r: "\<forall>w \<in> set ?ws. 0 \<le> fst w \<and> fst w + 3 \<le> int (vsize (mFext s2))"
    using range by (simp add: blocksInRange_def pointMassWrite_def keep(3) size)
  have d: "\<forall>n<length ?ws. \<forall>m<n. 3 \<le> \<bar>fst (?ws ! n) - fst (?ws ! m)\<bar>"
    using disj by (simp add: blocksDisjoint_def pointMassWrite_def)
  from assignSegments_blocks [OF r d] obtain v' where
    v': "assignSegments ?ws (mFext s2) = Inr v'"
      "\<forall>n<length ?ws. segment3 v' (fst (?ws ! n)) = snd (?ws ! n)"
    by blast
  have loop: "softBodyLoop (mSoftBodyNodes s2) s2 = Inr (s2\<lparr>mFext := v'\<rparr>)"
    by (simp add: softBodyLoop_visits same v'(1))
  have upd: "updateExternalForceVector ops s
               = Inr (s2\<lparr>mFext := v', mIsExternalForceVectorDirty := False\<rparr>)"
    using size dof loop by (simp add: updateExternalForceVector_def Let_def s1_def s2_def)
  have "segment3 v' (pointMassIndexInSkeleton s (snd v)) = springForce s (fst v) (snd v)"
    if "v \<in> set (pointMassVisits s)" for v
  proof -
    from that obtain n where n: "n < length (pointMassVisits s)" "pointMassVisits s ! n = v"
      by (auto simp add: in_set_conv_nth)
    with v'(2) have "segment3 v' (fst (pointMassWrite s v)) = snd (pointMassWrite s v)"
      by auto
    then show ?thesis
      by (simp add: pointMassWrite_def pointMassFext_springForce)
  qed
  then show ?thesis using upd by simp
qed

lemma single_point_mass_block:
  assumes dirty: "mIsExternalForceVectorDirty s"
    and size: "vsize (mFext s) = getDof s"
    and soft: "mSoftBodyNodes s = [sb]" "mPointMasses (softBodies (objects s) sb) = [p]"
    and alone: "mConnectedPointMasses (pointMasses (objects s) p) = []"
    and kv: "mKv (softBodies (objects s) sb) = 10" and dt: "mTimeStep s = 1 / 100"
    and q: "pointMassConfigs s p = (1 / 10, 0, 0)" and dq: "pointMassGenVels s p = (0, 0, 0)"
    and range: "0 \<le> pointMassIndexInSkeleton s p"
      "pointMassIndexInSkeleton s p + 3 \<le> int (getDof s)"
  shows "\<exists>F s'. getExternalForceVector ops s = Inr (F, s')
           \<and> segment3 F (pointMassIndexInSkeleton s p) = (- 1, 0, 0)"
proof -
  have visits: "pointMassVisits s = [(sb, p)]"
    by (simp add: pointMassVisits_def soft)
  have "0 < getDof s" using range by linarith
  moreover have "blocksInRange s" using range by (simp add: blocksInRange_def visits)
  moreover have "blocksDisjoint s" by (simp add: blocksDisjoint_def visits)
  ultimately obtain s' where
    s': "updateExternalForceVector ops s = Inr s'"
      "segment3 (mFext s') (pointMassIndexInSkeleton s p) = springForce s sb p"
    using updateExternalForceVector_blocks [OF size, of ops] by (auto simp add: visits)
  have "springForce s sb p = (- 1, 0, 0)"
    by (simp add: springForce_def alone kv dt q dq sum3_def zero3_def)
  with s' dirty show ?thesis
    by (simp add: getExternalForceVector_def)
qed

lemma softSkeleton_facts:
  "getDof softSkeleton = 4" "vsize (mFext softSkeleton) = 4"
  "mSoftBodyNodes softSkeleton = [1]" "mBodyNodes softSkeleton = [0, 1]"
  "mPointMasses (softBodies (objects softSkeleton) (Suc 0)) = [0]"
  "mConnectedPointMasses (pointMasses (objects softSkeleton) 0) = []"
  "mKv (softBodies (objects softSkeleton) (Suc 0)) = 10" "mTimeStep softSkeleton = 1 / 100"
  "pointMassConfigs softSkeleton 0 = (1 / 10, 0, 0)"
  "pointMassGenVels softSkeleton 0 = (0, 0, 0)"
  "pointMassIndexInSkeleton softSkeleton 0 = 1"
  "mIsExternalForceVectorDirty softSkeleton"
  "pointMassVisits softSkeleton = [(1, 0)]"
  by (simp_all add: softSkeleton_def softObjects_def getDof_def vectorZero_def
      pointMassConfigs_def pointMassGenVels_def pointMassIndexInSkeleton_def
      pointMassVisits_def)

lemma biasImpulseWalk_None [simp]: "biasImpulseWalk ops None s = Some s"
  by (subst biasImpulseWalk.simps) simp

lemma biasImpulseWalk_Some:
  "biasImpulseWalk ops (Some b) s =
     biasImpulseWalk ops (mParentBodyNode (bodies (objects s) b))
       (callBody ops UpdateBiasImpulse b s)"
  by (subst biasImpulseWalk.simps) simp

lemma biasImpulseWalk_returns:
  assumes "reachesRoot par b" and "par = parentOf s"
  shows "\<exists>s'. biasImpulseWalk ops (Some b) s = Some s' \<and> frame (\<lambda>c. c = UpdateBiasImpulse) s s'"
  using assms
proof (induction arbitrary: s rule: reachesRoot.induct)
  case (atRoot b)
  have "frame (\<lambda>c. c = UpdateBiasImpulse) s (callBody ops UpdateBiasImpulse b s)"
    by (rule frame_callBody) simp
  with atRoot show ?case
    by (simp add: biasImpulseWalk_Some parentOf_def)
next
  case (below b p)
  let ?s1 = "callBody ops UpdateBiasImpulse b s"
  have fr1: "frame (\<lambda>c. c = UpdateBiasImpulse) s ?s1"
    by (rule frame_callBody) simp
  have "par = parentOf ?s1"
    using below.prems by (simp add: parentOf_def fun_eq_iff)
  from below.IH [OF this] obtain s' where
    s': "biasImpulseWalk ops (Some p) ?s1 = Some s'" "frame (\<lambda>c. c = UpdateBiasImpulse) ?s1 s'"
    by blast
  have "biasImpulseWalk ops (Some b) s = Some s'"
    using below.hyps(1) below.prems s'(1) by (simp add: biasImpulseWalk_Some parentOf_def)
  with frame_trans [OF fr1 s'(2)] show ?case by blast
qed

lemma frame_tables:
  "frame P s t \<Longrightarrow> bodies (objects t) = bodies (objects s)
      \<and> pointMasses (objects t) = pointMasses (objects s)
      \<and> softBodies (objects t) = softBodies (objects s)"
  by (simp add: frame_def)

lemma setBodyConstraintImpulse_parentOf [simp]:
  "parentOf (setBodyConstraintImpulse b imp s) = parentOf s"
  by (simp add: parentOf_def setBodyConstraintImpulse_def fun_eq_iff)

lemma setPointMassConstraintImpulses_parentOf [simp]:
  "parentOf (setPointMassConstraintImpulses pm imp s) = parentOf s"
  by (simp add: parentOf_def setPointMassConstraintImpulses_def fun_eq_iff)

lemma updateBiasImpulse_imp_restores:
  assumes zero: "allConstraintImpulsesZero s" and dof: "0 < getDof s"
    and mem: "b \<in> set (mBodyNodes s)" and chain: "reachesRoot (parentOf s) b"
  shows "\<exists>s'. updateBiasImpulse_imp ops (Some b) imp s = Some (Inr s')
           \<and> mConstraintImpulse (bodies (objects s') b) = zero6
           \<and> bodies (objects s') = bodies (objects s)
           \<and> pointMasses (objects s') = pointMasses (objects s)"
proof -
  let ?s1 = "setBodyConstraintImpulse b imp s"
  from biasImpulseWalk_returns [OF chain, of ?s1 ops] obtain s2 where
    s2: "biasImpulseWalk ops (Some b) ?s1 = Some s2" "frame (\<lambda>c. c = UpdateBiasImpulse) ?s1 s2"
    by auto
  have b0: "mConstraintImpulse (bodies (objects s) b) = zero6"
    using zero mem by (simp add: allConstraintImpulsesZero_def list_all_iff)
  have upd: "updateBiasImpulse_imp ops (Some b) imp s
               = Some (Inr (setBodyConstraintImpulse b zero6 s2))"
    using zero dof mem s2(1) by (simp add: updateBiasImpulse_imp_def)
  have tabs: "bodies (objects s2) = bodies (objects ?s1)"
    "pointMasses (objects s2) = pointMasses (objects ?s1)"
    using frame_tables [OF s2(2)] by simp_all
  have "bodies (objects (setBodyConstraintImpulse b zero6 s2)) = bodies (objects s)"
    using b0 by (simp add: setBodyConstraintImpulse_def tabs fun_eq_iff)
  moreover have "pointMasses (objects (setBodyConstraintImpulse b zero6 s2))
                   = pointMasses (objects s)"
    by (simp add: setBodyConstraintImpulse_def tabs)
  moreover have "mConstraintImpulse (bodies (objects (setBodyConstraintImpulse b zero6 s2)) b)
                   = zero6"
    by (simp add: setBodyConstraintImpulse_def)
  ultimately show ?thesis using upd by blast
qed

lemma updateBiasImpulse_pointMass_restores:
  assumes zero: "allConstraintImpulsesZero s" and dof: "0 < getDof s"
    and mem: "sb \<in> set (mSoftBodyNodes s)" and chain: "reachesRoot (parentOf s) sb"
  shows "\<exists>s'. updateBiasImpulse_pointMass ops (Some sb) pm imp s = Some (Inr s')
           \<and> pmConstraintImpulses (pointMasses (objects s') pm)
               = pmConstraintImpulses (pointMasses (objects s) pm)
           \<and> bodies (objects s') = bodies (objects s)
           \<and> pointMasses (objects s') = pointMasses (objects s)"
proof -
  let ?s1 = "setPointMassConstraintImpulses pm imp s"
  let ?old = "pmConstraintImpulses (pointMasses (objects s) pm)"
  from biasImpulseWalk_returns [OF chain, of ?s1 ops] obtain s2 where
    s2: "biasImpulseWalk ops (Some sb) ?s1 = Some s2" "frame (\<lambda>c. c = UpdateBiasImpulse) ?s1 s2"
    by auto
  have upd: "updateBiasImpulse_pointMass ops (Some sb) pm imp s
               = Some (Inr (setPointMassConstraintImpulses pm ?old s2))"
    using zero dof mem s2(1) by (simp add: updateBiasImpulse_pointMass_def)
  have tabs: "bodies (objects s2) = bodies (objects ?s1)"
    "pointMasses (objects s2) = pointMasses (objects ?s1)"
    using frame_tables [OF s2(2)] by simp_all
  have "pointMasses (objects (setPointMassConstraintImpulses pm ?old s2))
          = pointMasses (objects s)"
    by (simp add: setPointMassConstraintImpulses_def tabs fun_eq_iff)
  moreover have "bodies (objects (setPointMassConstraintImpulses pm ?old s2)) = bodies (objects s)"
    by (simp add: setPointMassConstraintImpulses_def tabs)
  ultimately show ?thesis using upd by auto
qed

lemma bfsLoop_Nil [simp]: "bfsLoop children [] nodes = Some nodes"
  by (subst bfsLoop.simps) simp

lemma bfsLoop_Cons:
  "bfsLoop children (b # rest) nodes = bfsLoop children (rest @ children b) (nodes @ [b])"
  by (subst bfsLoop.simps) simp

lemma bfsInvariant_step:
  assumes inv: "bfsInvariant B nodes (b # rest)"
    and kids: "\<forall>c \<in> set cs. mParentBodyNode (B c) = Some b"
  shows "bfsInvariant B (nodes @ [b]) (rest @ cs)"
  unfolding bfsInvariant_def
proof (intro allI impI)
  fix k
  assume k: "k < length ((nodes @ [b]) @ rest @ cs)" and pos: "0 < k"
  let ?L = "nodes @ b # rest"
  have L': "(nodes @ [b]) @ rest @ cs = ?L @ cs" by simp
  show "\<exists>p<k. p < length (nodes @ [b])
          \<and> mParentBodyNode (B (((nodes @ [b]) @ rest @ cs) ! k))
              = Some (((nodes @ [b]) @ rest @ cs) ! p)"
  proof (cases "k < length ?L")
    case True
    with inv pos obtain p where p: "p < k" "p < length nodes"
      "mParentBodyNode (B (?L ! k)) = Some (?L ! p)"
      unfolding bfsInvariant_def by auto
    have "(?L @ cs) ! k = ?L ! k" using True by (simp only: nth_append if_True)
    moreover have "p < length ?L" using p(1) True by simp
    then have "(?L @ cs) ! p = ?L ! p" by (simp only: nth_append if_True)
    ultimately show ?thesis
      using p \<open>(?L @ cs) ! p = ?L ! p\<close> unfolding L' by (intro exI [of _ p]) simp
  next
    case False
    then have "(?L @ cs) ! k = cs ! (k - length ?L)" by (simp only: nth_append if_False)
    moreover have "k - length ?L < length cs" using k False by simp
    ultimately have "mParentBodyNode (B ((?L @ cs) ! k)) = Some b"
      using kids by (metis nth_mem)
    moreover have "(?L @ cs) ! length nodes = b" by (simp add: nth_append)
    moreover have "length nodes < k" using False by simp
    ultimately show ?thesis
      unfolding L' by (intro exI [of _ "length nodes"]) simp
  qed
qed

lemma bfsLoop_forest:
  assumes "\<forall>t \<in> set ts. formsTree B t"
    and "bfsInvariant B nodes (map treeRoot ts)"
  shows "\<exists>ys zs. bfsLoop (\<lambda>b. mChildBodyNodes (B b)) (map treeRoot ts) nodes = Some ys
           \<and> ys = nodes @ map treeRoot ts @ zs
           \<and> parentsPrecede B ys
           \<and> set ys = set nodes \<union> (\<Union>t \<in> set ts. treeNodes t)"
  using assms
proof (induction "sum_list (map treeSize ts)" arbitrary: ts nodes rule: less_induct)
  case less
  show ?case
  proof (cases ts)
    case Nil
    have "parentsPrecede B nodes"
      using less.prems(2) Nil by (auto simp add: bfsInvariant_def parentsPrecede_def)
    then show ?thesis using Nil by simp
  next
    case (Cons t rest)
    obtain b cs where t: "t = BodyTree b cs" by (cases t)
    have kids: "mChildBodyNodes (B b) = map treeRoot cs"
      and sub: "\<forall>c \<in> set cs. mParentBodyNode (B (treeRoot c)) = Some b \<and> formsTree B c"
      using less.prems(1) Cons t by simp_all
    have smaller: "sum_list (map treeSize (rest @ cs)) < sum_list (map treeSize ts)"
      using Cons t by simp
    have trees: "\<forall>u \<in> set (rest @ cs). formsTree B u"
      using less.prems(1) Cons sub by auto
    have "bfsInvariant B (nodes @ [b]) (map treeRoot rest @ map treeRoot cs)"
      by (rule bfsInvariant_step) (use less.prems(2) Cons t sub in auto)
    then have inv: "bfsInvariant B (nodes @ [b]) (map treeRoot (rest @ cs))" by simp
    from less.hyps [OF smaller trees inv] obtain ys zs where
      ys: "bfsLoop (\<lambda>b. mChildBodyNodes (B b)) (map treeRoot (rest @ cs)) (nodes @ [b]) = Some ys"
        "ys = (nodes @ [b]) @ map treeRoot (rest @ cs) @ zs"
        "parentsPrecede B ys"
        "set ys = set (nodes @ [b]) \<union> (\<Union>u \<in> set (rest @ cs). treeNodes u)"
      by blast
    have run: "bfsLoop (\<lambda>b. mChildBodyNodes (B b)) (map treeRoot ts) nodes = Some ys"
      using ys(1) Cons t kids by (simp add: bfsLoop_Cons)
    have shape: "ys = nodes @ map treeRoot ts @ (map treeRoot cs @ zs)"
      using ys(2) Cons t by simp
    have nodes': "set ys = set nodes \<union> (\<Union>u \<in> set ts. treeNodes u)"
      using ys(4) Cons t by auto
    from run shape ys(3) nodes' show ?thesis by blast
  qed
qed

lemma parentOf_steps [simp]:
  "parentOf (callBody ops c b s) = parentOf s"
  "parentOf (callInit ops ib s) = parentOf s"
  "parentOf (markJacobianDirty b s) = parentOf s"
  "parentOf (raiseDirtyFlags s) = parentOf s"
  "parentOf (setGenForces v s) = parentOf s"
  by (simp_all add: parentOf_def callBody_def callInit_def markJacobianDirty_def
      raiseDirtyFlags_def setGenForces_def split_def Let_def fun_eq_iff)

lemma mBodyNodes_callInit [simp]: "mBodyNodes (callInit ops ib s) = mBodyNodes s"
  by (simp add: callInit_def split_def)

lemma initBodiesAndBuffers_keeps:
  "mBodyNodes (initBodiesAndBuffers ops s) = mBodyNodes s"
  "parentOf (initBodiesAndBuffers ops s) = parentOf s"
proof -
  have 1: "mBodyNodes (computeForwardDynamicsRecursionPartA ops t) = mBodyNodes t" for t
    by (simp add: computeForwardDynamicsRecursionPartA_def Let_def
        fold_preserves [where g = mBodyNodes])
  have 2: "parentOf (computeForwardDynamicsRecursionPartA ops t) = parentOf t" for t
    by (simp add: computeForwardDynamicsRecursionPartA_def Let_def
        fold_preserves [where g = parentOf])
  show "mBodyNodes (initBodiesAndBuffers ops s) = mBodyNodes s"
    by (simp add: initBodiesAndBuffers_def Let_def clearInternalForces_def
        clearExternalForces_def 1 fold_preserves [where g = mBodyNodes])
  have 3: "parentOf (fold (callInit ops) ibs t) = parentOf t" for ibs t
    by (simp add: fold_preserves [where g = parentOf])
  have 4: "parentOf (fold (callBody ops c) bs t) = parentOf t" for c bs t
    by (simp add: fold_preserves [where g = parentOf])
  show "parentOf (initBodiesAndBuffers ops s) = parentOf s"
    using 2 [of "fold (callInit ops) (enumerate 0 (mBodyNodes s)) (s\<lparr>mGenCoords := []\<rparr>)"]
      3 [of "enumerate 0 (mBodyNodes s)" "s\<lparr>mGenCoords := []\<rparr>"]
    by (simp add: initBodiesAndBuffers_def Let_def clearInternalForces_def
        clearExternalForces_def parentOf_def setGenForces_def
        fold_preserves [where g = "\<lambda>s. bodies (objects s)"])
qed


lemma aggregate_joint [simp]:
  "jointDof (aggregateMassMatrix ops j b s) = jointDof s"
  "jointIndexInSkeleton (aggregateMassMatrix ops j b s) = jointIndexInSkeleton s"
  "jointDof (aggregateInvMassMatrix ops j b s) = jointDof s"
  "jointIndexInSkeleton (aggregateInvMassMatrix ops j b s) = jointIndexInSkeleton s"
  by (simp_all add: fun_eq_iff jointDof_def jointIndexInSkeleton_def aggregateMassMatrix_def
      aggregateInvMassMatrix_def callMat_def split_def Let_def)

lemma aggregate_rows [simp]:
  "bodyRows (aggregateMassMatrix ops j b s) = bodyRows s"
  "bodyRows (aggregateInvMassMatrix ops j b s) = bodyRows s"
  "rowsBefore (aggregateMassMatrix ops j b s) = rowsBefore s"
  "rowsFrom (aggregateInvMassMatrix ops j b s) = rowsFrom s"
  "writesBodyRows ops' (aggregateMassMatrix ops j b s) = writesBodyRows ops' s"
  "writesBodyRows ops' (aggregateInvMassMatrix ops j b s) = writesBodyRows ops' s"
  by (simp_all add: fun_eq_iff bodyRows_def rowsBefore_def rowsFrom_def writesBodyRows_def
      inJointRows_def inPointMassRows_def pointMassIndexInSkeleton_def
      jointDof_def jointIndexInSkeleton_def aggregateMassMatrix_def
      aggregateInvMassMatrix_def callMat_def split_def Let_def)











lemma example_joints:
  "jointDof interleavedSkeleton b = (if b \<in> {0, 1, 2, 3} then 1 else 0)"
  "jointIndexInSkeleton interleavedSkeleton 0 = 0"
  "jointIndexInSkeleton interleavedSkeleton (Suc 0) = 4"
  "jointIndexInSkeleton interleavedSkeleton 2 = 5"
  "jointIndexInSkeleton interleavedSkeleton 3 = 6"
  "jointDof trailingSkeleton b = (if b \<in> {0, 1} then 1 else 0)"
  "jointIndexInSkeleton trailingSkeleton 0 = 0"
  "jointIndexInSkeleton trailingSkeleton (Suc 0) = 1"
  by (auto simp add: jointDof_def jointIndexInSkeleton_def interleavedSkeleton_def
      interleavedObjects_def trailingSkeleton_def trailingObjects_def nullBody_def)

lemma example_softBodies:
  "mBodyNodes interleavedSkeleton = [0, 1, 2, 3]"
  "mSoftBodyNodes interleavedSkeleton = [0]"
  "mPointMasses (softBodies (objects interleavedSkeleton) b) = (if b = 0 then [0] else [])"
  "pointMassIndexInSkeleton interleavedSkeleton p = 1"
  "mBodyNodes trailingSkeleton = [0, 1]"
  "mSoftBodyNodes trailingSkeleton = [0]"
  "mPointMasses (softBodies (objects trailingSkeleton) b) = (if b = 0 then [0] else [])"
  "pointMassIndexInSkeleton trailingSkeleton p = 2"
  by (simp_all add: pointMassIndexInSkeleton_def interleavedSkeleton_def
      interleavedObjects_def trailingSkeleton_def trailingObjects_def)






lemma trailing_rows_do_not_ascend: "\<not> bodyRowsAscend trailingSkeleton"
  by (simp add: bodyRowsAscend_def rowsBefore_def rowsFrom_def example_joints
      example_softBodies)

lemma early_exit_skips_upper_entry:
  "coeff (mM (aggregateMassMatrixLoop rowOps 6 (rev (mBodyNodes interleavedSkeleton))
                interleavedSkeleton)) 3 6 = 0
   \<and> coeff (mM (aggregateMassMatrixNoBreak rowOps 6 (rev (mBodyNodes interleavedSkeleton))
                  interleavedSkeleton)) 3 6 = 7"
  by (simp add: aggregateMassMatrixNoBreak_def aggregateMassMatrix_def callMat_def
      interleavedSkeleton_def interleavedObjects_def rowOps_def inJointRows_def
      inPointMassRows_def jointDof_def jointIndexInSkeleton_def matrixZero_def nullBody_def
      Let_def chainSkeleton_def)


subsection \<open>The claims\<close>

text \<open>
  C1. On a skeleton with at least one degree of freedom and a mass-matrix buffer of
  that dimension, \<^verbatim>\<open>updateMassMatrix()\<close> returns, and the matrix \<open>mM\<close> it leaves
  is equal to its transpose: the strictly upper triangle is mirrored from the lower
  triangle after the column loop, and the restoring \<^verbatim>\<open>setAccelerations\<close> does not
  touch it. When the flag is set, this is the matrix \<^verbatim>\<open>getMassMatrix()\<close> returns.
\<close>

theorem mass_matrix_symmetric:
  assumes "0 < getDof s" and "mrows (mM s) = getDof s" and "mcols (mM s) = getDof s"
  shows "\<exists>s'. updateMassMatrix ops s = Inr s' \<and> symmetric (getDof s) (mM s')
           \<and> (mIsMassMatrixDirty s \<longrightarrow> getMassMatrix ops s = Inr (mM s', s'))"
proof -
  define s1 where "s1 = s\<lparr>mM := matrixSetZero (mM s)\<rparr>"
  define s2 where
    "s2 = snd (fold (massMatrixColumn ops) [0..<getDof s1] (replicate (getDof s1) 0, s1))"
  have "frame (\<lambda>c. True) (snd (replicate (getDof s1) (0::real), s1)) s2"
    unfolding s2_def by (rule frame_fold_columns) (rule frame_massMatrixColumn, simp_all)
  then have dims: "mrows (mM s2) = getDof s" "mcols (mM s2) = getDof s"
    using assms by (simp_all add: frame_def matrixSetZero_def s1_def)
  have sym: "symmetric (getDof s) (mirrorStrictlyUpper (mM s2))"
    by (rule symmetric_mirrorStrictlyUpper) (rule dims)+
  have upd: "updateMassMatrix ops s =
      Inr ((setAccelerations ops (getGenAccs s1) False
              (s2\<lparr>mM := mirrorStrictlyUpper (mM s2)\<rparr>))\<lparr>mIsMassMatrixDirty := False\<rparr>)"
    using assms by (simp add: updateMassMatrix_def Let_def s1_def s2_def)
  show ?thesis
    using sym by (simp add: upd getMassMatrix_def mM_setAccelerations)
qed

theorem mass_matrix_symmetric_witness:
  "\<exists>s'. updateMassMatrix eulerOps chainSkeleton = Inr s' \<and> symmetric 2 (mM s')"
  using mass_matrix_symmetric [of chainSkeleton eulerOps] by auto

text \<open>
  C2 says that recomputing the mass matrix changes no other public state, the validity
  of the other cached quantities included. On the chain with every cache valid but the
  mass matrix, \<^verbatim>\<open>getMassMatrix()\<close> returns with the flags of the articulated inertia,
  the augmented matrix, both inverses, and the Coriolis, gravity, combined and
  external-force vectors all set: \<^verbatim>\<open>updateMassMatrix\<close> restores the accelerations
  through \<^verbatim>\<open>Skeleton::setAccelerations\<close>, which ends in
  \<^verbatim>\<open>computeForwardKinematics\<close>. The sibling \<^verbatim>\<open>updateAugMassMatrix\<close> restores them
  through \<^verbatim>\<open>GenCoordSystem::setAccelerations\<close> and leaves every other flag as it was.
\<close>

theorem getMassMatrix_invalidates_other_caches:
  "\<exists>M s' A t'.
      getMassMatrix eulerOps (chainSkeleton\<lparr>mIsMassMatrixDirty := True\<rparr>) = Inr (M, s')
    \<and> dirtyFlags (chainSkeleton\<lparr>mIsMassMatrixDirty := True\<rparr>)
        = [False, True, False, False, False, False, False, False, False]
    \<and> dirtyFlags s' = [True, False, True, True, True, True, True, True, True]
    \<and> getAugMassMatrix eulerOps (chainSkeleton\<lparr>mIsAugMassMatrixDirty := True\<rparr>) = Inr (A, t')
    \<and> dirtyFlags (chainSkeleton\<lparr>mIsAugMassMatrixDirty := True\<rparr>)
        = [False, False, True, False, False, False, False, False, False]
    \<and> dirtyFlags t' = [False, False, False, False, False, False, False, False, False]"
proof -
  let ?s = "chainSkeleton\<lparr>mIsMassMatrixDirty := True\<rparr>"
  let ?t = "chainSkeleton\<lparr>mIsAugMassMatrixDirty := True\<rparr>"
  have "\<exists>s'. updateMassMatrix eulerOps ?s = Inr s'"
    by (rule updateMassMatrix_returns) (simp_all add: getDof_def chainSkeleton_def matrixZero_def)
  then obtain s' where s': "updateMassMatrix eulerOps ?s = Inr s'" ..
  have "\<exists>t'. updateAugMassMatrix eulerOps ?t = Inr t'"
    by (rule updateAugMassMatrix_returns)
      (simp_all add: getDof_def chainSkeleton_def matrixZero_def)
  then obtain t' where t': "updateAugMassMatrix eulerOps ?t = Inr t'" ..
  have "getMassMatrix eulerOps ?s = Inr (mM s', s')"
    by (simp add: getMassMatrix_def s')
  moreover have "dirtyFlags s' = [True, False, True, True, True, True, True, True, True]"
    by (rule updateMassMatrix_dirtyFlags) (rule s')
  moreover have "dirtyFlags ?s = [False, True, False, False, False, False, False, False, False]"
    by (simp add: dirtyFlags_def chainSkeleton_def)
  moreover have "getAugMassMatrix eulerOps ?t = Inr (mAugM t', t')"
    by (simp add: getAugMassMatrix_def t')
  moreover have "dirtyFlags ?t = [False, False, True, False, False, False, False, False, False]"
    by (simp add: dirtyFlags_def chainSkeleton_def)
  moreover have "dirtyFlags t' = [False, False, False, False, False, False, False, False, False]"
    using updateAugMassMatrix_dirtyFlags [OF t'] by (simp add: dirtyFlags_def chainSkeleton_def)
  ultimately show ?thesis by blast
qed

text \<open>
  C3. When the time step is positive and the child and parent pointers below the first
  element of \<open>mBodyNodes\<close> form a finite tree, \<^verbatim>\<open>init\<close> returns, and in the
  rearranged \<open>mBodyNodes\<close> the first element is the original first element, the parent
  of every later element occurs at a strictly smaller index, and the elements are exactly
  the bodies of the tree.
\<close>

theorem init_orders_bodies_breadth_first:
  assumes "0 < timeStep" and "mBodyNodes s = r # others"
    and "formsTree (bodies (objects s)) t" and "treeRoot t = r"
  shows "\<exists>s'. init ops timeStep gravity s = Some (Inr s')
           \<and> mBodyNodes s' ! 0 = r
           \<and> (\<forall>i<length (mBodyNodes s'). 0 < i \<longrightarrow>
                 (\<exists>p<i. parentOf s' (mBodyNodes s' ! i) = Some (mBodyNodes s' ! p)))
           \<and> set (mBodyNodes s') = treeNodes t"
proof -
  let ?B = "bodies (objects s)"
  let ?s1 = "s\<lparr>mTimeStep := timeStep, mGravity := gravity\<rparr>"
  have "\<forall>u \<in> set [t]. formsTree ?B u" using assms(3) by simp
  moreover have "bfsInvariant ?B [] (map treeRoot [t])"
    by (simp add: bfsInvariant_def)
  ultimately obtain ys zs where
    ys: "bfsLoop (\<lambda>b. mChildBodyNodes (?B b)) (map treeRoot [t]) [] = Some ys"
      "ys = [] @ map treeRoot [t] @ zs" "parentsPrecede ?B ys"
      "set ys = set [] \<union> (\<Union>u \<in> set [t]. treeNodes u)"
    using bfsLoop_forest [of "[t]" ?B "[]"] by blast
  let ?s' = "initBodiesAndBuffers ops (?s1\<lparr>mBodyNodes := ys\<rparr>)"
  have run: "init ops timeStep gravity s = Some (Inr ?s')"
    using assms(1,2,4) ys(1) by (simp add: init_def Let_def)
  have nodes: "mBodyNodes ?s' = ys"
    by (simp add: initBodiesAndBuffers_keeps)
  have par: "parentOf ?s' = (\<lambda>b. mParentBodyNode (?B b))"
    by (simp add: initBodiesAndBuffers_keeps) (simp add: parentOf_def)
  have "ys ! 0 = r" using ys(2) assms(4) by simp
  moreover have "\<forall>i<length ys. 0 < i \<longrightarrow> (\<exists>p<i. parentOf ?s' (ys ! i) = Some (ys ! p))"
    using ys(3) by (simp add: parentsPrecede_def par)
  moreover have "set ys = treeNodes t" using ys(4) by simp
  ultimately show ?thesis using run nodes by simp
qed

theorem init_orders_bodies_breadth_first_witness:
  "\<exists>s'. init eulerOps (1 / 1000) [0, 0, - 981 / 100] branchSkeleton = Some (Inr s')
      \<and> mBodyNodes branchSkeleton = [0, 3, 1, 2]
      \<and> mBodyNodes s' = [0, 2, 1, 3]
      \<and> mBodyNodes s' ! 0 = 0
      \<and> (\<forall>i<length (mBodyNodes s'). 0 < i \<longrightarrow>
            (\<exists>p<i. parentOf s' (mBodyNodes s' ! i) = Some (mBodyNodes s' ! p)))
      \<and> set (mBodyNodes s') = {0, 1, 2, 3}"
proof -
  have tree: "formsTree (bodies (objects branchSkeleton)) branchTree"
    by (simp add: branchSkeleton_def branchObjects_def branchTree_def nullBody_def)
  have nodes: "mBodyNodes branchSkeleton = 0 # [3, 1, 2]"
    by (simp add: branchSkeleton_def)
  have "treeNodes branchTree = {0, 1, 2, 3}"
    by (auto simp add: branchTree_def)
  moreover have "init eulerOps (1 / 1000) [0, 0, - 981 / 100] branchSkeleton
      = Some (Inr (initBodiesAndBuffers eulerOps
           (branchSkeleton\<lparr>mTimeStep := 1 / 1000, mGravity := [0, 0, - 981 / 100],
              mBodyNodes := [0, 2, 1, 3]\<rparr>)))"
    by (simp add: init_def bfsLoop_Cons branchSkeleton_def branchObjects_def nullBody_def)
  ultimately show ?thesis
    using init_orders_bodies_breadth_first [of "1 / 1000" branchSkeleton 0 "[3, 1, 2]"
        branchTree eulerOps "[0, 0, - 981 / 100]", OF _ nodes tree] nodes
    by (simp add: branchTree_def initBodiesAndBuffers_keeps)
qed




text \<open>
  C5, as stated, fails: on the chain with every cached quantity valid,
  \<^verbatim>\<open>integrateConfigs\<close> moves both generalized positions and leaves all nine dirty
  flags cleared.
\<close>

theorem integrateConfigs_counterexample:
  "getPositions (integrateConfigs eulerOps (1 / 1000) chainSkeleton) = [1 / 1000, 1 / 1000]
   \<and> getPositions chainSkeleton = [0, 0]
   \<and> dirtyFlags (integrateConfigs eulerOps (1 / 1000) chainSkeleton) = replicate 9 False"
  by (simp add: integrateConfigs_def getPositions_def dirtyFlags_def chainSkeleton_def
      chainObjects_def eulerOps_def callBody_def nullBody_def numeral_eq_Suc)

text \<open>
  C5, amended. \<^verbatim>\<open>computeForwardKinematics\<close> and the setters that end with it
  (\<^verbatim>\<open>setPositions\<close>, \<^verbatim>\<open>setVelocities\<close>, \<^verbatim>\<open>setAccelerations\<close>, \<^verbatim>\<open>setState\<close>)
  return with all nine dirty flags set. \<^verbatim>\<open>integrateConfigs\<close> and
  \<^verbatim>\<open>integrateGenVels\<close> only delegate to the joints and point masses: they set no
  dirty flag, every flag keeps the value it had, and raising them is left to the
  caller's next \<^verbatim>\<open>computeForwardKinematics\<close>.
\<close>

theorem dirty_flags_of_mutators:
  "dirtyFlags (computeForwardKinematics ops updateTransforms updateVels updateAccs s)
     = replicate 9 True
   \<and> dirtyFlags (setPositions ops configs updateTransforms updateVels updateAccs s)
     = replicate 9 True
   \<and> dirtyFlags (setVelocities ops genVels updateVels updateAccs s) = replicate 9 True
   \<and> dirtyFlags (setAccelerations ops genAccs updateAccs s) = replicate 9 True
   \<and> (\<forall>s'. setState ops state updateTransforms updateVels updateAccs s = Inr s'
          \<longrightarrow> dirtyFlags s' = replicate 9 True)
   \<and> dirtyFlags (integrateConfigs ops dt s) = dirtyFlags s
   \<and> dirtyFlags (integrateGenVels ops dt s) = dirtyFlags s"
  by (auto simp add: setPositions_def setVelocities_def setAccelerations_def setState_def
      dirtyFlags_computeForwardKinematics dirtyFlags_integrate split: if_splits)

theorem dirty_flags_of_mutators_witness:
  "(\<exists>s'. setState eulerOps [0, 0, 1, 1] False False False chainSkeleton = Inr s'
         \<and> dirtyFlags s' = replicate 9 True)
   \<and> dirtyFlags (setPositions eulerOps [0, 0] False False False chainSkeleton) = replicate 9 True
   \<and> dirtyFlags (integrateConfigs eulerOps (1 / 1000) chainSkeleton) = dirtyFlags chainSkeleton"
proof -
  obtain s' where s': "setState eulerOps [0, 0, 1, 1] False False False chainSkeleton = Inr s'"
    by (simp add: setState_def)
  show ?thesis
    using s' dirty_flags_of_mutators [of eulerOps False False False chainSkeleton "[0, 0]"
        "[1, 1]" "[0, 0]" "[0, 0, 1, 1]" "1 / 1000"]
    by simp
qed

text \<open>
  C6. \<^verbatim>\<open>updateInvMassMatrix()\<close>, when it returns, has invoked
  \<^verbatim>\<open>updateArtInertia(mTimeStep)\<close> on every body in reverse order exactly when the
  articulated-inertia flag was set on entry, invokes it nowhere else, and leaves the flag
  cleared. \<^verbatim>\<open>updateInvAugMassMatrix()\<close> never invokes \<^verbatim>\<open>updateArtInertia\<close>, leaves
  the flag as it was, and does not read it: run with the flag forced to any value, it
  gives the same result up to that value of the flag.
\<close>

theorem articulated_inertia_in_inverse_updates:
  "(updateInvMassMatrix ops s = Inr s' \<longrightarrow>
      \<not> mIsArticulatedInertiaDirty s'
      \<and> (\<exists>l. calls s' = calls s
               @ (if mIsArticulatedInertiaDirty s
                  then map (Pair (UpdateArtInertia (mTimeStep s))) (rev (mBodyNodes s)) else [])
               @ l
             \<and> list_all (\<lambda>ev. \<not> isUpdateArtInertia (fst ev)) l))
   \<and> (updateInvAugMassMatrix ops s = Inr s'' \<longrightarrow>
      mIsArticulatedInertiaDirty s'' = mIsArticulatedInertiaDirty s
      \<and> (\<exists>l. calls s'' = calls s @ l \<and> list_all (\<lambda>ev. \<not> isUpdateArtInertia (fst ev)) l))
   \<and> updateInvAugMassMatrix ops (s\<lparr>mIsArticulatedInertiaDirty := f\<rparr>)
       = map_sum id (\<lambda>t. t\<lparr>mIsArticulatedInertiaDirty := f\<rparr>) (updateInvAugMassMatrix ops s)"
  using updateInvMassMatrix_articulatedInertia [of ops s s']
    updateInvAugMassMatrix_articulatedInertia [of ops s s'']
    updateInvAugMassMatrix_ignores_flag [where ops = ops and s = s and f = f]
  by blast

theorem articulated_inertia_in_inverse_updates_witness:
  "\<exists>s' s'' l.
      updateInvMassMatrix eulerOps (chainSkeleton\<lparr>mIsArticulatedInertiaDirty := True\<rparr>) = Inr s'
    \<and> \<not> mIsArticulatedInertiaDirty s'
    \<and> calls s' = [(UpdateArtInertia (1 / 1000), 1), (UpdateArtInertia (1 / 1000), 0)] @ l
    \<and> list_all (\<lambda>ev. \<not> isUpdateArtInertia (fst ev)) l
    \<and> updateInvAugMassMatrix eulerOps (chainSkeleton\<lparr>mIsArticulatedInertiaDirty := True\<rparr>)
        = Inr s''
    \<and> mIsArticulatedInertiaDirty s''"
proof -
  let ?s = "chainSkeleton\<lparr>mIsArticulatedInertiaDirty := True\<rparr>"
  have "\<exists>s'. updateInvMassMatrix eulerOps ?s = Inr s'"
    by (rule updateInvMassMatrix_returns) (simp_all add: getDof_def chainSkeleton_def matrixZero_def)
  then obtain s' where s': "updateInvMassMatrix eulerOps ?s = Inr s'" ..
  have "\<exists>s'. updateInvAugMassMatrix eulerOps ?s = Inr s'"
    by (rule updateInvAugMassMatrix_returns)
      (simp_all add: getDof_def chainSkeleton_def matrixZero_def)
  then obtain s'' where s'': "updateInvAugMassMatrix eulerOps ?s = Inr s''" ..
  show ?thesis
    using s' s'' articulated_inertia_in_inverse_updates
      [where ops = eulerOps and s = ?s and s' = s' and s'' = s'' and f = True]
    by (auto simp add: chainSkeleton_def)
qed

text \<open>
  C7. Let every body's constraint impulse be zero and the skeleton have a degree of
  freedom. For a body \<open>b\<close> of the skeleton whose parent chain ends at a root,
  \<^verbatim>\<open>updateBiasImpulse(b, imp)\<close> returns with the constraint impulse of \<open>b\<close> equal
  to zero, and for a soft body \<open>sb\<close> of the skeleton whose parent chain ends at a root,
  \<^verbatim>\<open>updateBiasImpulse(sb, pm, imp)\<close> returns with the constraint impulses of \<open>pm\<close>
  equal to their value before the call; after either call every body and every point
  mass is as before, so all constraint-impulse state is unchanged.
\<close>

theorem bias_impulse_leaves_constraint_impulses:
  "(allConstraintImpulsesZero s \<and> 0 < getDof s \<and> b \<in> set (mBodyNodes s)
      \<and> reachesRoot (parentOf s) b \<longrightarrow>
      (\<exists>s'. updateBiasImpulse_imp ops (Some b) imp6 s = Some (Inr s')
         \<and> mConstraintImpulse (bodies (objects s') b) = zero6
         \<and> bodies (objects s') = bodies (objects s)
         \<and> pointMasses (objects s') = pointMasses (objects s)))
   \<and> (allConstraintImpulsesZero s \<and> 0 < getDof s \<and> sb \<in> set (mSoftBodyNodes s)
      \<and> reachesRoot (parentOf s) sb \<longrightarrow>
      (\<exists>s'. updateBiasImpulse_pointMass ops (Some sb) pm imp3 s = Some (Inr s')
         \<and> pmConstraintImpulses (pointMasses (objects s') pm)
             = pmConstraintImpulses (pointMasses (objects s) pm)
         \<and> bodies (objects s') = bodies (objects s)
         \<and> pointMasses (objects s') = pointMasses (objects s)))"
  using updateBiasImpulse_imp_restores [of s b ops imp6]
    updateBiasImpulse_pointMass_restores [of s sb ops pm imp3]
  by blast

theorem bias_impulse_leaves_constraint_impulses_witness:
  "(\<exists>s'. updateBiasImpulse_imp eulerOps (Some 1) [1, 2, 3, 4, 5, 6] softSkeleton = Some (Inr s')
       \<and> mConstraintImpulse (bodies (objects s') 1) = zero6
       \<and> bodies (objects s') = bodies (objects softSkeleton)
       \<and> pointMasses (objects s') = pointMasses (objects softSkeleton))
   \<and> (\<exists>s'. updateBiasImpulse_pointMass eulerOps (Some 1) 0 (1, 2, 3) softSkeleton
              = Some (Inr s')
       \<and> pmConstraintImpulses (pointMasses (objects s') 0) = (0, 0, 0)
       \<and> bodies (objects s') = bodies (objects softSkeleton)
       \<and> pointMasses (objects s') = pointMasses (objects softSkeleton))"
proof -
  have zero: "allConstraintImpulsesZero softSkeleton"
    by (simp add: allConstraintImpulsesZero_def softSkeleton_def softObjects_def nullBody_def)
  have dof: "0 < getDof softSkeleton"
    by (simp add: softSkeleton_facts)
  have "parentOf softSkeleton 0 = None" "parentOf softSkeleton 1 = Some 0"
    by (simp_all add: parentOf_def softSkeleton_def softObjects_def nullBody_def)
  then have chain: "reachesRoot (parentOf softSkeleton) 1"
    by (blast intro: reachesRoot.intros)
  have mem: "1 \<in> set (mBodyNodes softSkeleton)" "1 \<in> set (mSoftBodyNodes softSkeleton)"
    by (simp_all add: softSkeleton_facts)
  have old: "pmConstraintImpulses (pointMasses (objects softSkeleton) 0) = (0, 0, 0)"
    by (simp add: softSkeleton_def softObjects_def)
  show ?thesis
    using bias_impulse_leaves_constraint_impulses
      [of softSkeleton 1 eulerOps "[1, 2, 3, 4, 5, 6]" 1 0 "(1, 2, 3)"]
      zero dof chain mem old
    by simp
qed

text \<open>
  C8. \<^verbatim>\<open>computeImpulseForwardDynamics()\<close> on a skeleton that is not mobile or has no
  degree of freedom returns at once: the skeleton afterwards is the skeleton before, in
  every member (the articulated-inertia flag among them), in every object it points to,
  and in the record of collaborator operations, to which nothing was added.
\<close>

theorem computeImpulseForwardDynamics_noop:
  "\<not> mIsMobile s \<or> getDof s = 0 \<Longrightarrow> computeImpulseForwardDynamics ops s = s"
  by (simp add: computeImpulseForwardDynamics_def)

theorem computeImpulseForwardDynamics_noop_witness:
  "computeImpulseForwardDynamics eulerOps (chainSkeleton\<lparr>mIsMobile := False\<rparr>)
     = chainSkeleton\<lparr>mIsMobile := False\<rparr>"
  using computeImpulseForwardDynamics_noop [of "chainSkeleton\<lparr>mIsMobile := False\<rparr>" eulerOps]
  by simp

text \<open>
  C9. When the blocks of the point masses lie inside \<open>mFext\<close> and do not overlap,
  \<^verbatim>\<open>updateExternalForceVector()\<close> returns, and for every point mass \<open>p\<close> of every soft
  body the block of \<open>mFext\<close> that starts at the skeleton index of \<open>p\<close>'s first
  coordinate holds exactly \<open>- (kv + n ke) q - dt (kv + n ke) dq + (\<Sum>j. ke (q\<^sub>j + dt dq\<^sub>j))\<close>,
  whatever the bodies aggregated into the vector before. In particular, for a single
  point mass without neighbours, \<open>kv = 10\<close>, \<open>dt = 0.01\<close>, \<open>q = (0.1, 0, 0)\<close> and
  \<open>dq = 0\<close>, the block of the vector that \<^verbatim>\<open>getExternalForceVector()\<close> returns is
  \<open>(-1, 0, 0)\<close>.
\<close>

theorem external_force_point_mass_blocks:
  "(vsize (mFext s) = getDof s \<and> 0 < getDof s \<and> blocksInRange s \<and> blocksDisjoint s \<longrightarrow>
      (\<exists>s'. updateExternalForceVector ops s = Inr s'
         \<and> (\<forall>v \<in> set (pointMassVisits s).
               segment3 (mFext s') (pointMassIndexInSkeleton s (snd v))
                 = springForce s (fst v) (snd v))))
   \<and> (mIsExternalForceVectorDirty s \<and> vsize (mFext s) = getDof s
      \<and> mSoftBodyNodes s = [sb] \<and> mPointMasses (softBodies (objects s) sb) = [p]
      \<and> mConnectedPointMasses (pointMasses (objects s) p) = []
      \<and> mKv (softBodies (objects s) sb) = 10 \<and> mTimeStep s = 1 / 100
      \<and> pointMassConfigs s p = (1 / 10, 0, 0) \<and> pointMassGenVels s p = (0, 0, 0)
      \<and> 0 \<le> pointMassIndexInSkeleton s p
      \<and> pointMassIndexInSkeleton s p + 3 \<le> int (getDof s) \<longrightarrow>
      (\<exists>F s'. getExternalForceVector ops s = Inr (F, s')
         \<and> segment3 F (pointMassIndexInSkeleton s p) = (- 1, 0, 0)))"
  using updateExternalForceVector_blocks [of s ops] single_point_mass_block [of s sb p ops]
  by blast

theorem external_force_point_mass_blocks_witness:
  "(\<exists>s'. updateExternalForceVector eulerOps softSkeleton = Inr s'
       \<and> segment3 (mFext s') 1 = springForce softSkeleton 1 0)
   \<and> (\<exists>F s'. getExternalForceVector eulerOps softSkeleton = Inr (F, s')
       \<and> segment3 F 1 = (- 1, 0, 0))"
  using external_force_point_mass_blocks [of softSkeleton eulerOps 1 0]
  by (simp add: softSkeleton_facts blocksInRange_def blocksDisjoint_def)

text \<open>
  C10. \<^verbatim>\<open>setVelocities\<close> passes \<open>false\<close> for the transform flag of
  \<^verbatim>\<open>computeForwardKinematics\<close> and \<^verbatim>\<open>setAccelerations\<close> passes \<open>false\<close> for the
  transform and velocity flags. The collaborator operations they invoke are exactly:
  for \<^verbatim>\<open>setVelocities\<close>, \<^verbatim>\<open>updateVelocity\<close> and \<^verbatim>\<open>updatePartialAcceleration\<close> on
  each body when the velocity flag is given, then \<^verbatim>\<open>updateAcceleration\<close> on each body
  when the acceleration flag is given; for \<^verbatim>\<open>setAccelerations\<close>,
  \<^verbatim>\<open>updateAcceleration\<close> on each body when its flag is given. So neither ever invokes
  \<^verbatim>\<open>updateTransform\<close> on any body, and \<^verbatim>\<open>setAccelerations\<close> never invokes
  \<^verbatim>\<open>updateVelocity\<close>, whatever flags are passed.
\<close>

theorem setters_skip_transform_update:
  "calls (setVelocities ops genVels updateVels updateAccs s) =
     calls s
     @ (if updateVels
        then concat (map (\<lambda>b. [(UpdateVelocity, b), (UpdatePartialAcceleration, b)])
                       (mBodyNodes s)) else [])
     @ (if updateAccs then map (Pair UpdateAcceleration) (mBodyNodes s) else [])
   \<and> calls (setAccelerations ops genAccs updateAccs s) =
     calls s @ (if updateAccs then map (Pair UpdateAcceleration) (mBodyNodes s) else [])
   \<and> (\<forall>b. (UpdateTransform, b)
          \<notin> set (drop (length (calls s)) (calls (setVelocities ops genVels updateVels updateAccs s))))
   \<and> (\<forall>b. (UpdateTransform, b)
          \<notin> set (drop (length (calls s)) (calls (setAccelerations ops genAccs updateAccs s)))
        \<and> (UpdateVelocity, b)
          \<notin> set (drop (length (calls s)) (calls (setAccelerations ops genAccs updateAccs s))))"
  by (auto simp add: setVelocities_def setAccelerations_def calls_computeForwardKinematics)

theorem setters_skip_transform_update_witness:
  "calls (setVelocities eulerOps [2, 3] True True chainSkeleton) =
     [(UpdateVelocity, 0), (UpdatePartialAcceleration, 0),
      (UpdateVelocity, 1), (UpdatePartialAcceleration, 1),
      (UpdateAcceleration, 0), (UpdateAcceleration, 1)]
   \<and> calls (setAccelerations eulerOps [2, 3] True chainSkeleton) =
     [(UpdateAcceleration, 0), (UpdateAcceleration, 1)]"
  using setters_skip_transform_update [of eulerOps "[2, 3]" True True chainSkeleton "[2, 3]"]
  by (simp add: chainSkeleton_def)

end
